theory Spec2Isabelle
  imports Complex_Main
begin

section \<open>Double-precision values\<close>

text \<open>
  The GDP column of the data frame has dtype float64, and \<open>.iat[0]\<close> hands the script a
  numpy float64 scalar. \<open>FNum s m\<close> is the finite value with sign bit \<open>s\<close> and magnitude
  \<open>m \<ge> 0\<close> (so \<open>FNum True 0\<close> is the negative zero), \<open>FInf s\<close> an infinity and \<open>FNaN\<close>
  the not-a-number that pandas uses for an empty cell. The magnitude is kept as an exact
  real; every division rounds its result to the nearest double (\<open>round_f64\<close>).
\<close>

datatype f64 = FNaN | FInf bool | FNum bool real

definition pow2 :: "int \<Rightarrow> real" where
  "pow2 e = (if 0 \<le> e then 2 ^ nat e else 1 / 2 ^ nat (- e))"

function bit_length :: "int \<Rightarrow> nat" where
  "bit_length n = (if n \<le> 0 then 0 else Suc (bit_length (n div 2)))"
  by pat_completeness auto
termination
  by (relation "measure nat") auto

declare bit_length.simps [simp del]

text \<open>The binary exponent of a positive magnitude: \<open>pow2 (ilog2 q) \<le> q < pow2 (ilog2 q + 1)\<close>.\<close>

definition ilog2 :: "real \<Rightarrow> int" where
  "ilog2 q = (if 1 \<le> q then int (bit_length \<lfloor>q\<rfloor>) - 1
              else - int (bit_length (\<lceil>1 / q\<rceil> - 1)))"

definition round_half_even :: "real \<Rightarrow> int" where
  "round_half_even q =
     (if q - of_int \<lfloor>q\<rfloor> < 1 / 2 then \<lfloor>q\<rfloor>
      else if 1 / 2 < q - of_int \<lfloor>q\<rfloor> then \<lfloor>q\<rfloor> + 1
      else if even \<lfloor>q\<rfloor> then \<lfloor>q\<rfloor> else \<lfloor>q\<rfloor> + 1)"

text \<open>
  The spacing of the doubles around a positive magnitude: 53 significant bits, and the
  fixed spacing \<open>2\<^sup>-\<^sup>1\<^sup>0\<^sup>7\<^sup>4\<close> of the subnormal range below \<open>2\<^sup>-\<^sup>1\<^sup>0\<^sup>2\<^sup>2\<close>.
\<close>

definition quantum :: "real \<Rightarrow> real" where
  "quantum q = pow2 (max (ilog2 q) (- 1022) - 52)"

text \<open>Round to nearest, ties to even; a result of \<open>2\<^sup>1\<^sup>0\<^sup>2\<^sup>4\<close> or more overflows to an infinity.\<close>

definition round_f64 :: "bool \<Rightarrow> real \<Rightarrow> f64" where
  "round_f64 s q =
     (if q = 0 then FNum s 0
      else if pow2 1024 \<le> of_int (round_half_even (q / quantum q)) * quantum q then FInf s
      else FNum s (of_int (round_half_even (q / quantum q)) * quantum q))"

text \<open>
  Division of numpy float64 scalars: it never raises; a zero divisor gives an infinity, or
  NaN for \<open>0 / 0\<close>.
\<close>

fun f64_div :: "f64 \<Rightarrow> f64 \<Rightarrow> f64" where
  "f64_div FNaN y = FNaN"
| "f64_div x FNaN = FNaN"
| "f64_div (FInf s) (FInf t) = FNaN"
| "f64_div (FInf s) (FNum t n) = FInf (s \<noteq> t)"
| "f64_div (FNum s m) (FInf t) = FNum (s \<noteq> t) 0"
| "f64_div (FNum s m) (FNum t n) =
     (if n = 0 then (if m = 0 then FNaN else FInf (s \<noteq> t))
      else round_f64 (s \<noteq> t) (m / n))"

text \<open>The literal \<open>1e9\<close>.\<close>

definition billion :: f64 where
  "billion = FNum False 1000000000"

text \<open>\<open>math.isnan\<close>\<close>

fun isnan :: "f64 \<Rightarrow> bool" where
  "isnan FNaN = True"
| "isnan (FInf s) = False"
| "isnan (FNum s m) = False"

section \<open>Decimal text\<close>

definition digit_char :: "int \<Rightarrow> char" where
  "digit_char d = ''0123456789'' ! nat d"

function digits :: "int \<Rightarrow> string" where
  "digits n = (if n < 10 then [digit_char n] else digits (n div 10) @ [digit_char (n mod 10)])"
  by pat_completeness auto
termination
  by (relation "measure nat") auto

declare digits.simps [simp del]

text \<open>Python's \<open>str\<close> on an integer.\<close>

definition str_int :: "int \<Rightarrow> string" where
  "str_int n = (if n < 0 then CHR ''-'' # digits (- n) else digits n)"

definition pad2 :: "int \<Rightarrow> string" where
  "pad2 n = (if n < 10 then CHR ''0'' # digits n else digits n)"

definition pad3 :: "int \<Rightarrow> string" where
  "pad3 n = (if n < 10 then ''00'' @ digits n else if n < 100 then CHR ''0'' # digits n else digits n)"

function group3 :: "int \<Rightarrow> string" where
  "group3 n = (if n < 1000 then digits n else group3 (n div 1000) @ CHR '','' # pad3 (n mod 1000))"
  by pat_completeness auto
termination
  by (relation "measure nat") auto

declare group3.simps [simp del]

definition sign_str :: "bool \<Rightarrow> string" where
  "sign_str s = (if s then ''-'' else [])"

text \<open>The format specification \<open>.2f\<close>: the exact value, rounded half-even to two decimals.\<close>

fun format_2f :: "f64 \<Rightarrow> string" where
  "format_2f FNaN = ''nan''"
| "format_2f (FInf s) = sign_str s @ ''inf''"
| "format_2f (FNum s m) =
     sign_str s @ digits (round_half_even (m * 100) div 100) @ CHR ''.'' #
       pad2 (round_half_even (m * 100) mod 100)"

text \<open>The format specification \<open>,.0f\<close>: no decimals, thousands separated by commas.\<close>

fun format_comma_0f :: "f64 \<Rightarrow> string" where
  "format_comma_0f FNaN = ''nan''"
| "format_comma_0f (FInf s) = sign_str s @ ''inf''"
| "format_comma_0f (FNum s m) = sign_str s @ group3 (round_half_even m)"

section \<open>Loading and reshaping\<close>

datatype error = KeyError | ValueError | IndexError

text \<open>
  The frame \<open>raw_gdp_df\<close> that \<open>pd.read_csv\<close> returns, column by column: the object
  column \<open>Country Code\<close> (if the file has it) and the float64 columns under their headers.
  Every column of a frame has \<open>n_rows\<close> entries (\<open>wf_raw\<close>).
\<close>

record raw_table =
  n_rows :: nat
  country_code_col :: "string list option"
  year_cols :: "(string \<times> f64 list) list"

definition wf_raw :: "raw_table \<Rightarrow> bool" where
  "wf_raw raw \<longleftrightarrow>
     (case country_code_col raw of None \<Rightarrow> True | Some ids \<Rightarrow> length ids = n_rows raw) \<and>
     list_all (\<lambda>hc. length (snd hc) = n_rows raw) (year_cols raw)"

record observation =
  country_code :: string
  year :: int
  gdp :: f64

text \<open>
  \<open>DataFrame.melt\<close> with one id column: for each value column in the order asked for, the
  rows of the frame in their order. A column that the frame lacks is a \<open>KeyError\<close>.
\<close>

fun melt_cols :: "string list \<Rightarrow> (string \<times> f64 list) list \<Rightarrow> string list
    \<Rightarrow> error + (string \<times> string \<times> f64) list" where
  "melt_cols ids cols [] = Inr []"
| "melt_cols ids cols (v # vs) =
     (case map_of cols v of
        None \<Rightarrow> Inl KeyError
      | Some xs \<Rightarrow>
          (case melt_cols ids cols vs of
             Inl e \<Rightarrow> Inl e
           | Inr rest \<Rightarrow> Inr (map (\<lambda>cx. (fst cx, v, snd cx)) (zip ids xs) @ rest)))"

definition melt :: "raw_table \<Rightarrow> string list \<Rightarrow> error + (string \<times> string \<times> f64) list" where
  "melt raw value_vars =
     (case country_code_col raw of
        None \<Rightarrow> Inl KeyError
      | Some ids \<Rightarrow> melt_cols ids (year_cols raw) value_vars)"

definition digit_val :: "char \<Rightarrow> int option" where
  "digit_val c = map_of (zip ''0123456789'' [0, 1, 2, 3, 4, 5, 6, 7, 8, 9]) c"

text \<open>
  \<open>pd.to_numeric\<close> on the strings it meets here, the decimal headers: a string of digits
  becomes its integer, anything else is a \<open>ValueError\<close>.
\<close>

fun parse_digits :: "int \<Rightarrow> string \<Rightarrow> error + int" where
  "parse_digits acc [] = Inr acc"
| "parse_digits acc (c # cs) =
     (case digit_val c of None \<Rightarrow> Inl ValueError | Some d \<Rightarrow> parse_digits (10 * acc + d) cs)"

definition to_numeric :: "string \<Rightarrow> error + int" where
  "to_numeric s = (if s = [] then Inl ValueError else parse_digits 0 s)"

fun to_numeric_year :: "(string \<times> string \<times> f64) list \<Rightarrow> error + observation list" where
  "to_numeric_year [] = Inr []"
| "to_numeric_year (r # rs) =
     (case to_numeric (fst (snd r)) of
        Inl e \<Rightarrow> Inl e
      | Inr y \<Rightarrow>
          (case to_numeric_year rs of
             Inl e \<Rightarrow> Inl e
           | Inr os \<Rightarrow> Inr (\<lparr>country_code = fst r, year = y, gdp = snd (snd r)\<rparr> # os)))"

definition MIN_YEAR :: int where "MIN_YEAR = 1960"
definition MAX_YEAR :: int where "MAX_YEAR = 2022"

definition load_gdp_data :: "raw_table \<Rightarrow> error + observation list" where
  "load_gdp_data raw =
     (case melt raw (map str_int [MIN_YEAR..MAX_YEAR]) of
        Inl e \<Rightarrow> Inl e
      | Inr rows \<Rightarrow> to_numeric_year rows)"

section \<open>Filtering\<close>

text \<open>Indexing a frame by a boolean mask keeps the rows where the mask is true.\<close>

definition select_rows :: "'a list \<Rightarrow> bool list \<Rightarrow> 'a list" where
  "select_rows rows keep = map fst (filter snd (zip rows keep))"

definition mask_and :: "bool list \<Rightarrow> bool list \<Rightarrow> bool list" where
  "mask_and xs ys = map (\<lambda>p. fst p \<and> snd p) (zip xs ys)"

definition filtered_gdp_df :: "observation list \<Rightarrow> string list \<Rightarrow> int \<Rightarrow> int \<Rightarrow> observation list" where
  "filtered_gdp_df gdp_df selected_countries from_year to_year =
     select_rows gdp_df
       (mask_and
          (mask_and (map (\<lambda>r. country_code r \<in> set selected_countries) gdp_df)
                    (map (\<lambda>r. from_year \<le> year r) gdp_df))
          (map (\<lambda>r. year r \<le> to_year) gdp_df))"

section \<open>Growth metrics\<close>

definition first_year_data :: "observation list \<Rightarrow> int \<Rightarrow> observation list" where
  "first_year_data gdp_df from_year = select_rows gdp_df (map (\<lambda>r. year r = from_year) gdp_df)"

definition last_year_data :: "observation list \<Rightarrow> int \<Rightarrow> observation list" where
  "last_year_data gdp_df to_year = select_rows gdp_df (map (\<lambda>r. year r = to_year) gdp_df)"

text \<open>\<open>.iat[0]\<close>: the first entry, an \<open>IndexError\<close> on an empty column.\<close>

fun iat0 :: "'a list \<Rightarrow> error + 'a" where
  "iat0 [] = Inl IndexError"
| "iat0 (x # xs) = Inr x"

text \<open>The GDP entry of a country in the rows of one year.\<close>

definition country_gdp :: "observation list \<Rightarrow> string \<Rightarrow> error + f64" where
  "country_gdp year_data country =
     iat0 (map gdp (select_rows year_data (map (\<lambda>r. country_code r = country) year_data)))"

text \<open>The arguments of one \<open>st.metric\<close> call.\<close>

record metric =
  m_label :: string
  m_value :: string
  m_delta :: string
  m_delta_color :: string

text \<open>The body of the loop over the selected countries.\<close>

definition country_metric :: "observation list \<Rightarrow> int \<Rightarrow> int \<Rightarrow> string \<Rightarrow> error + metric" where
  "country_metric gdp_df from_year to_year country =
     (case country_gdp (first_year_data gdp_df from_year) country of
        Inl e \<Rightarrow> Inl e
      | Inr a \<Rightarrow>
          (case country_gdp (last_year_data gdp_df to_year) country of
             Inl e \<Rightarrow> Inl e
           | Inr b \<Rightarrow>
               Inr \<lparr>m_label = country @ '' GDP'',
                    m_value = format_comma_0f (f64_div b billion) @ ''B USD'',
                    m_delta = (if isnan (f64_div a billion) then ''N/A''
                               else format_2f (f64_div (f64_div b billion) (f64_div a billion)) @ ''x''),
                    m_delta_color = (if isnan (f64_div a billion) then ''off'' else ''normal'')\<rparr>))"

text \<open>
  The loop: the metrics rendered so far, and the exception that ended it, if one did.
  Nothing in the script catches an exception.
\<close>

fun metrics_loop :: "observation list \<Rightarrow> int \<Rightarrow> int \<Rightarrow> string list \<Rightarrow> metric list \<times> error option" where
  "metrics_loop gdp_df from_year to_year [] = ([], None)"
| "metrics_loop gdp_df from_year to_year (country # rest) =
     (case country_metric gdp_df from_year to_year country of
        Inl e \<Rightarrow> ([], Some e)
      | Inr m \<Rightarrow> (m # fst (metrics_loop gdp_df from_year to_year rest),
                  snd (metrics_loop gdp_df from_year to_year rest)))"

text \<open>What one run of the script shows for a selection of the two widgets.\<close>

record page =
  warning :: bool
  line_chart :: "observation list"
  metrics :: "metric list"
  exception :: "error option"

definition render :: "observation list \<Rightarrow> int \<Rightarrow> int \<Rightarrow> string list \<Rightarrow> page" where
  "render gdp_df from_year to_year selected_countries =
     \<lparr>warning = (selected_countries = []),
      line_chart = filtered_gdp_df gdp_df selected_countries from_year to_year,
      metrics = fst (metrics_loop gdp_df from_year to_year selected_countries),
      exception = snd (metrics_loop gdp_df from_year to_year selected_countries)\<rparr>"

section \<open>Auxiliary notions and reference data\<close>

text \<open>
  The observations that one year column contributes: row by row, the country of the row, the
  year and the cell.
\<close>

definition year_block :: "string list \<Rightarrow> f64 list \<Rightarrow> int \<Rightarrow> observation list" where
  "year_block ids xs y = map (\<lambda>cx. \<lparr>country_code = fst cx, year = y, gdp = snd cx\<rparr>) (zip ids xs)"

text \<open>The column of a year, found under the decimal text of the year.\<close>

definition column :: "raw_table \<Rightarrow> int \<Rightarrow> f64 list" where
  "column raw y = (case map_of (year_cols raw) (str_int y) of None \<Rightarrow> [] | Some xs \<Rightarrow> xs)"

text \<open>The table has the country column and a column for each year from 1960 to 2022.\<close>

definition has_columns :: "raw_table \<Rightarrow> bool" where
  "has_columns raw \<longleftrightarrow>
     country_code_col raw \<noteq> None \<and>
     list_all (\<lambda>y. map_of (year_cols raw) (str_int y) \<noteq> None) [MIN_YEAR..MAX_YEAR]"

text \<open>
  A table of two countries, \<open>DEU\<close> with 100 in every year and \<open>XYZ\<close> with every cell
  empty; a table without any year column; and a frame of observations for the two boundary
  years 1960 and 2022, in which \<open>GAP\<close> has no row for 1960.
\<close>

definition demo_raw :: raw_table where
  "demo_raw = \<lparr>n_rows = 2, country_code_col = Some [''DEU'', ''XYZ''],
      year_cols = map (\<lambda>y. (str_int y, [FNum False 100, FNaN])) [MIN_YEAR..MAX_YEAR]\<rparr>"

definition empty_raw :: raw_table where
  "empty_raw = \<lparr>n_rows = 0, country_code_col = Some [], year_cols = []\<rparr>"

definition demo_df :: "observation list" where
  "demo_df =
     [\<lparr>country_code = ''DEU'', year = 1960, gdp = FNum False 100\<rparr>,
      \<lparr>country_code = ''XYZ'', year = 1960, gdp = FNaN\<rparr>,
      \<lparr>country_code = ''ZER'', year = 1960, gdp = FNum False 0\<rparr>,
      \<lparr>country_code = ''NOL'', year = 1960, gdp = FNum False 50\<rparr>,
      \<lparr>country_code = ''AAA'', year = 1960, gdp = FNum False 8\<rparr>,
      \<lparr>country_code = ''DEU'', year = 2022, gdp = FNum False 450\<rparr>,
      \<lparr>country_code = ''XYZ'', year = 2022, gdp = FNum False 200\<rparr>,
      \<lparr>country_code = ''ZER'', year = 2022, gdp = FNum False 5\<rparr>,
      \<lparr>country_code = ''NOL'', year = 2022, gdp = FNaN\<rparr>,
      \<lparr>country_code = ''AAA'', year = 2022, gdp = FNum False 7\<rparr>,
      \<lparr>country_code = ''GAP'', year = 2022, gdp = FNum False 1\<rparr>]"

section \<open>Properties of the model\<close>

subsection \<open>Masks\<close>

lemma select_rows_map: "select_rows xs (map P xs) = filter P xs"
  by (induction xs) (simp_all add: select_rows_def)

lemma mask_and_map: "mask_and (map P xs) (map Q xs) = map (\<lambda>x. P x \<and> Q x) xs"
  by (induction xs) (simp_all add: mask_and_def)

lemma filtered_gdp_df_filter:
  "filtered_gdp_df gdp_df sel f t =
     filter (\<lambda>r. country_code r \<in> set sel \<and> f \<le> year r \<and> year r \<le> t) gdp_df"
  by (simp add: filtered_gdp_df_def mask_and_map select_rows_map conj_assoc)

lemma first_year_data_filter: "first_year_data gdp_df y = filter (\<lambda>r. year r = y) gdp_df"
  by (simp add: first_year_data_def select_rows_map)

lemma last_year_data_filter: "last_year_data gdp_df y = filter (\<lambda>r. year r = y) gdp_df"
  by (simp add: last_year_data_def select_rows_map)

lemma country_gdp_filter:
  "country_gdp yd c = iat0 (map gdp (filter (\<lambda>r. country_code r = c) yd))"
  by (simp add: country_gdp_def select_rows_map)

subsection \<open>Decimal headers\<close>

lemma digit_val_digit_char: "0 \<le> d \<Longrightarrow> d < 10 \<Longrightarrow> digit_val (digit_char d) = Some d"
proof -
  assume "0 \<le> d" "d < 10"
  then have "d = 0 \<or> d = 1 \<or> d = 2 \<or> d = 3 \<or> d = 4 \<or> d = 5 \<or> d = 6 \<or> d = 7 \<or> d = 8 \<or> d = 9"
    by arith
  then show ?thesis
    by (elim disjE) (simp_all add: digit_val_def digit_char_def)
qed

lemma parse_digits_append:
  "parse_digits acc (xs @ ys) =
     (case parse_digits acc xs of Inl e \<Rightarrow> Inl e | Inr a \<Rightarrow> parse_digits a ys)"
  by (induction xs arbitrary: acc) (simp_all split: option.splits)

lemma parse_digits_digits: "0 \<le> n \<Longrightarrow> parse_digits 0 (digits n) = Inr n"
proof (induction n rule: digits.induct)
  case (1 n)
  show ?case
  proof (cases "n < 10")
    case True
    with 1 show ?thesis
      by (subst digits.simps) (simp add: digit_val_digit_char)
  next
    case False
    with 1 have ih: "parse_digits 0 (digits (n div 10)) = Inr (n div 10)"
      by simp
    have "digit_val (digit_char (n mod 10)) = Some (n mod 10)"
      by (simp add: digit_val_digit_char)
    with False ih show ?thesis
      by (subst digits.simps) (simp add: parse_digits_append)
  qed
qed

lemma digits_not_Nil: "digits n \<noteq> []"
  by (subst digits.simps) simp

lemma to_numeric_str_int: "0 \<le> y \<Longrightarrow> to_numeric (str_int y) = Inr y"
  by (simp add: to_numeric_def str_int_def digits_not_Nil parse_digits_digits)

subsection \<open>Reshaping\<close>

lemma melt_cols_missing:
  "v \<in> set vs \<Longrightarrow> map_of cols v = None \<Longrightarrow> melt_cols ids cols vs = Inl KeyError"
proof (induction vs)
  case Nil
  then show ?case by simp
next
  case (Cons w ws)
  show ?case
  proof (cases "map_of cols w")
    case None
    then show ?thesis by simp
  next
    case (Some xs)
    show ?thesis
    proof (cases "v = w")
      case True
      with Cons.prems Some show ?thesis by simp
    next
      case False
      with Cons have "melt_cols ids cols ws = Inl KeyError" by simp
      with Some show ?thesis by simp
    qed
  qed
qed

lemma melt_cols_present:
  "list_all (\<lambda>y. map_of cols (str_int y) \<noteq> None) ys \<Longrightarrow>
   melt_cols ids cols (map str_int ys) =
     Inr (concat (map (\<lambda>y. map (\<lambda>cx. (fst cx, str_int y, snd cx))
            (zip ids (case map_of cols (str_int y) of None \<Rightarrow> [] | Some xs \<Rightarrow> xs))) ys))"
  by (induction ys) auto

lemma to_numeric_year_append:
  "to_numeric_year (rs @ ss) =
     (case to_numeric_year rs of
        Inl e \<Rightarrow> Inl e
      | Inr os \<Rightarrow> (case to_numeric_year ss of Inl e \<Rightarrow> Inl e | Inr ps \<Rightarrow> Inr (os @ ps)))"
  by (induction rs) (simp_all split: sum.splits)

lemma to_numeric_year_block:
  "0 \<le> y \<Longrightarrow>
   to_numeric_year (map (\<lambda>cx. (fst cx, str_int y, snd cx)) zs) =
     Inr (map (\<lambda>cx. \<lparr>country_code = fst cx, year = y, gdp = snd cx\<rparr>) zs)"
  by (induction zs) (simp_all add: to_numeric_str_int)

lemma to_numeric_year_blocks:
  "list_all (\<lambda>y. 0 \<le> y) ys \<Longrightarrow>
   to_numeric_year (concat (map (\<lambda>y. map (\<lambda>cx. (fst cx, str_int y, snd cx)) (zip ids (f y))) ys)) =
     Inr (concat (map (\<lambda>y. year_block ids (f y) y) ys))"
  by (induction ys) (simp_all add: to_numeric_year_append to_numeric_year_block year_block_def)

lemma years_nonneg: "list_all (\<lambda>y. 0 \<le> y) [MIN_YEAR..MAX_YEAR]"
  by (simp add: list_all_iff MIN_YEAR_def)

lemma load_gdp_data_present:
  assumes "country_code_col raw = Some ids" and "has_columns raw"
  shows "load_gdp_data raw = Inr (concat (map (\<lambda>y. year_block ids (column raw y) y) [MIN_YEAR..MAX_YEAR]))"
proof -
  from assms(2) have "list_all (\<lambda>y. map_of (year_cols raw) (str_int y) \<noteq> None) [MIN_YEAR..MAX_YEAR]"
    by (simp add: has_columns_def)
  then have "melt raw (map str_int [MIN_YEAR..MAX_YEAR]) =
      Inr (concat (map (\<lambda>y. map (\<lambda>cx. (fst cx, str_int y, snd cx)) (zip ids (column raw y)))
             [MIN_YEAR..MAX_YEAR]))"
    using assms(1) by (simp add: melt_def melt_cols_present column_def)
  then show ?thesis
    by (simp add: load_gdp_data_def to_numeric_year_blocks years_nonneg)
qed

lemma load_gdp_data_missing:
  assumes "\<not> has_columns raw"
  shows "load_gdp_data raw = Inl KeyError"
proof (cases "country_code_col raw")
  case None
  then show ?thesis by (simp add: load_gdp_data_def melt_def)
next
  case (Some ids)
  with assms obtain y where "y \<in> set [MIN_YEAR..MAX_YEAR]" "map_of (year_cols raw) (str_int y) = None"
    by (auto simp: has_columns_def list_all_iff)
  then have "melt_cols ids (year_cols raw) (map str_int [MIN_YEAR..MAX_YEAR]) = Inl KeyError"
    by (intro melt_cols_missing [of "str_int y"]) auto
  with Some show ?thesis by (simp add: load_gdp_data_def melt_def)
qed

subsection \<open>The rows of one year\<close>

lemma filter_year_block:
  "filter (\<lambda>r. year r = y) (year_block ids xs y') = (if y' = y then year_block ids xs y' else [])"
  by (auto simp: year_block_def filter_empty_conv)

lemma filter_year_blocks:
  "distinct ys \<Longrightarrow> y \<in> set ys \<Longrightarrow>
   filter (\<lambda>r. year r = y) (concat (map (\<lambda>y'. year_block ids (f y') y') ys)) = year_block ids (f y) y"
proof (induction ys)
  case Nil
  then show ?case by simp
next
  case (Cons a ys)
  show ?case
  proof (cases "a = y")
    case True
    with Cons.prems have "y \<notin> set ys" by simp
    then have "filter (\<lambda>r. year r = y) (concat (map (\<lambda>y'. year_block ids (f y') y') ys)) = []"
      by (auto simp: filter_empty_conv year_block_def)
    with True show ?thesis by (simp add: filter_year_block)
  next
    case False
    with Cons show ?thesis by (simp add: filter_year_block)
  qed
qed

lemma length_blocks:
  "list_all (\<lambda>y. length (f y) = length ids) ys \<Longrightarrow>
   length (concat (map (\<lambda>y. year_block ids (f y) y) ys)) = length ids * length ys"
  by (induction ys) (simp_all add: year_block_def)

lemma filter_code_block:
  "distinct ids \<Longrightarrow> length xs = length ids \<Longrightarrow> i < length ids \<Longrightarrow>
   filter (\<lambda>r. country_code r = ids ! i) (year_block ids xs y) =
     [\<lparr>country_code = ids ! i, year = y, gdp = xs ! i\<rparr>]"
proof (induction ids arbitrary: xs i)
  case Nil
  then show ?case by simp
next
  case (Cons a ids)
  then obtain x xs' where xs: "xs = x # xs'" by (cases xs) auto
  show ?case
  proof (cases i)
    case 0
    from Cons.prems have "a \<notin> set ids" by simp
    then have "filter (\<lambda>r. country_code r = a) (year_block ids xs' y) = []"
      by (auto simp: filter_empty_conv year_block_def dest: set_zip_leftD)
    with 0 xs show ?thesis by (simp add: year_block_def)
  next
    case (Suc j)
    with Cons.prems xs have "ids ! j \<noteq> a" by auto
    moreover from Cons Suc xs have
      "filter (\<lambda>r. country_code r = ids ! j) (year_block ids xs' y) =
         [\<lparr>country_code = ids ! j, year = y, gdp = xs' ! j\<rparr>]"
      by simp
    ultimately show ?thesis using Suc xs by (simp add: year_block_def)
  qed
qed

lemma column_Some: "map_of (year_cols raw) (str_int y) = Some xs \<Longrightarrow> column raw y = xs"
  by (simp add: column_def)

lemma wf_raw_column:
  assumes "wf_raw raw" and "map_of (year_cols raw) (str_int y) = Some xs"
  shows "length xs = n_rows raw"
proof -
  from assms(2) have "(str_int y, xs) \<in> set (year_cols raw)"
    by (rule map_of_SomeD)
  with assms(1) show ?thesis
    by (auto simp: wf_raw_def list_all_iff)
qed

lemma has_columns_column:
  assumes "has_columns raw" and "MIN_YEAR \<le> y" and "y \<le> MAX_YEAR"
  shows "\<exists>xs. map_of (year_cols raw) (str_int y) = Some xs"
proof -
  from assms(2,3) have "y \<in> set [MIN_YEAR..MAX_YEAR]" by simp
  moreover from assms(1) have "\<forall>y\<in>set [MIN_YEAR..MAX_YEAR]. map_of (year_cols raw) (str_int y) \<noteq> None"
    by (simp add: has_columns_def list_all_iff)
  ultimately have "map_of (year_cols raw) (str_int y) \<noteq> None" by blast
  then show ?thesis by auto
qed

lemma wf_raw_columns:
  assumes "wf_raw raw" and "has_columns raw" and "country_code_col raw = Some ids"
  shows "list_all (\<lambda>y. length (column raw y) = length ids) [MIN_YEAR..MAX_YEAR]"
proof -
  have "length (column raw y) = length ids" if "y \<in> set [MIN_YEAR..MAX_YEAR]" for y
  proof -
    from that have "MIN_YEAR \<le> y" "y \<le> MAX_YEAR" by simp_all
    with assms(2) obtain xs where xs: "map_of (year_cols raw) (str_int y) = Some xs"
      using has_columns_column by blast
    with assms(1) have "length xs = n_rows raw" by (rule wf_raw_column)
    moreover from assms(1,3) have "length ids = n_rows raw" by (simp add: wf_raw_def)
    ultimately show ?thesis using xs by (simp add: column_Some)
  qed
  then show ?thesis by (simp add: list_all_iff)
qed

lemma year_rows_of_load:
  assumes "country_code_col raw = Some ids" and "has_columns raw"
    and "map_of (year_cols raw) (str_int y) = Some xs" and "MIN_YEAR \<le> y" and "y \<le> MAX_YEAR"
  shows "\<exists>obs. load_gdp_data raw = Inr obs \<and> filter (\<lambda>r. year r = y) obs = year_block ids xs y"
proof -
  from assms(4,5) have "y \<in> set [MIN_YEAR..MAX_YEAR]" by simp
  then have "filter (\<lambda>r. year r = y)
      (concat (map (\<lambda>y'. year_block ids (column raw y') y') [MIN_YEAR..MAX_YEAR])) =
      year_block ids (column raw y) y"
    by (intro filter_year_blocks) simp_all
  with assms(1,2,3) show ?thesis
    by (simp add: load_gdp_data_present column_Some)
qed

subsection \<open>Division\<close>

lemma f64_div_NaN_right: "f64_div x FNaN = FNaN"
  by (cases x) simp_all

lemma round_f64_not_NaN: "round_f64 s q \<noteq> FNaN"
  by (simp add: round_f64_def)

lemma isnan_iff: "isnan x \<longleftrightarrow> x = FNaN"
  by (cases x) simp_all

lemma f64_div_billion_NaN: "f64_div a billion = FNaN \<longleftrightarrow> a = FNaN"
  by (cases a) (simp_all add: billion_def round_f64_not_NaN)

lemma f64_div_zero_billion: "f64_div (FNum s 0) billion = FNum s 0"
  by (simp add: billion_def round_f64_def)

lemma f64_div_by_zero:
  "f64_div x (FNum s 0) = FNaN \<or> f64_div x (FNum s 0) = FInf False \<or> f64_div x (FNum s 0) = FInf True"
  by (cases x) auto

subsection \<open>One metric\<close>

lemma country_metric_values:
  assumes "country_gdp (first_year_data gdp_df f) c = Inr a"
    and "country_gdp (last_year_data gdp_df t) c = Inr b"
  shows "country_metric gdp_df f t c =
     Inr \<lparr>m_label = c @ '' GDP'',
          m_value = format_comma_0f (f64_div b billion) @ ''B USD'',
          m_delta = (if a = FNaN then ''N/A''
                     else format_2f (f64_div (f64_div b billion) (f64_div a billion)) @ ''x''),
          m_delta_color = (if a = FNaN then ''off'' else ''normal'')\<rparr>"
  using assms by (simp add: country_metric_def isnan_iff f64_div_billion_NaN)

lemma country_gdp_empty:
  "filter (\<lambda>r. country_code r = c) yd = [] \<Longrightarrow> country_gdp yd c = Inl IndexError"
  by (simp add: country_gdp_filter)

lemma country_gdp_error: "country_gdp yd c = Inl e \<Longrightarrow> e = IndexError"
  by (cases "filter (\<lambda>r. country_code r = c) yd") (simp_all add: country_gdp_filter)

lemma country_metric_error: "country_metric gdp_df f t c = Inl e \<Longrightarrow> e = IndexError"
  by (auto simp: country_metric_def split: sum.splits dest: country_gdp_error)

lemma country_metric_missing:
  assumes "filter (\<lambda>r. country_code r = c) (first_year_data gdp_df f) = [] \<or>
           filter (\<lambda>r. country_code r = c) (last_year_data gdp_df t) = []"
  shows "country_metric gdp_df f t c = Inl IndexError"
proof (cases "country_gdp (first_year_data gdp_df f) c")
  case (Inl e)
  then have "e = IndexError" by (rule country_gdp_error)
  with Inl show ?thesis by (simp add: country_metric_def)
next
  case (Inr a)
  then have "filter (\<lambda>r. country_code r = c) (first_year_data gdp_df f) \<noteq> []"
    by (auto simp: country_gdp_filter)
  with assms have "country_gdp (last_year_data gdp_df t) c = Inl IndexError"
    by (simp add: country_gdp_empty)
  with Inr show ?thesis by (simp add: country_metric_def)
qed

subsection \<open>The loop\<close>

lemma metrics_loop_append:
  "metrics_loop g f t (xs @ ys) =
     (case snd (metrics_loop g f t xs) of
        Some e \<Rightarrow> metrics_loop g f t xs
      | None \<Rightarrow> (fst (metrics_loop g f t xs) @ fst (metrics_loop g f t ys),
                  snd (metrics_loop g f t ys)))"
  by (induction xs) (auto split: sum.splits option.splits)

lemma metrics_loop_error: "snd (metrics_loop g f t cs) = Some e \<Longrightarrow> e = IndexError"
  by (induction cs) (auto split: sum.splits dest: country_metric_error)

subsection \<open>Rounding error\<close>

lemma pow2_powr: "pow2 e = 2 powr (real_of_int e)"
proof (cases "0 \<le> e")
  case True
  then have "real_of_int e = real (nat e)" by simp
  then have "(2::real) powr (real_of_int e) = 2 ^ nat e"
    by (simp only: powr_realpow zero_less_numeral)
  with True show ?thesis by (simp add: pow2_def)
next
  case False
  then have "real_of_int e = - real (nat (- e))" by simp
  then have "(2::real) powr (real_of_int e) = 1 / 2 ^ nat (- e)"
    by (simp only: powr_minus_divide powr_realpow zero_less_numeral)
  with False show ?thesis by (simp add: pow2_def)
qed

lemma pow2_pos: "0 < pow2 e"
  by (simp add: pow2_powr)

lemma pow2_add: "pow2 (a + b) = pow2 a * pow2 b"
  by (simp add: pow2_powr powr_add)

lemma pow2_less_iff: "pow2 a < pow2 b \<longleftrightarrow> a < b"
  by (simp add: pow2_powr)

lemma pow2_le_iff: "pow2 a \<le> pow2 b \<longleftrightarrow> a \<le> b"
  by (simp add: pow2_powr)

lemma pow2_nat: "pow2 (int n) = 2 ^ n"
  by (simp add: pow2_def)

lemma pow2_neg_nat: "pow2 (- int n) = 1 / 2 ^ n"
  by (cases "n = 0") (simp_all add: pow2_def)

lemma bit_length_bounds:
  "1 \<le> n \<Longrightarrow> 2 ^ (bit_length n - 1) \<le> n \<and> n < 2 ^ bit_length n"
proof (induction n rule: bit_length.induct)
  case (1 n)
  show ?case
  proof (cases "n = 1")
    case True
    then show ?thesis by (simp add: bit_length.simps)
  next
    case False
    with 1 have ge: "1 \<le> n div 2" by simp
    with 1 have ih: "2 ^ (bit_length (n div 2) - 1) \<le> n div 2" "n div 2 < 2 ^ bit_length (n div 2)"
      by simp_all
    from ge have pos: "0 < bit_length (n div 2)"
      by (subst bit_length.simps) simp
    from 1 have bl: "bit_length n = Suc (bit_length (n div 2))"
      by (subst bit_length.simps) simp
    from pos have "(2::int) ^ bit_length (n div 2) = 2 * 2 ^ (bit_length (n div 2) - 1)"
      by (cases "bit_length (n div 2)") simp_all
    with ih(1) have "2 ^ bit_length (n div 2) \<le> n" by linarith
    moreover from ih(2) have "n < 2 * 2 ^ bit_length (n div 2)" by linarith
    ultimately show ?thesis by (simp add: bl)
  qed
qed

lemma ilog2_bounds:
  assumes "0 < q"
  shows "pow2 (ilog2 q) \<le> q \<and> q < pow2 (ilog2 q + 1)"
proof (cases "1 \<le> q")
  case True
  define n where "n = \<lfloor>q\<rfloor>"
  from True have n1: "1 \<le> n" by (simp add: n_def)
  then have b: "2 ^ (bit_length n - 1) \<le> n" "n < 2 ^ bit_length n"
    using bit_length_bounds by blast+
  from n1 have pos: "0 < bit_length n" by (subst bit_length.simps) simp
  then have e: "ilog2 q = int (bit_length n - 1)"
    using True by (simp add: ilog2_def n_def)
  have "real_of_int n \<le> q" by (simp add: n_def)
  moreover from b(1) have "(2::real) ^ (bit_length n - 1) \<le> real_of_int n"
    by (metis of_int_le_iff of_int_numeral of_int_power)
  moreover have "pow2 (ilog2 q) = 2 ^ (bit_length n - 1)" by (simp only: e pow2_nat)
  ultimately have lo: "pow2 (ilog2 q) \<le> q" by linarith
  have "q < real_of_int n + 1" by (simp add: n_def)
  moreover from b(2) have "n + 1 \<le> 2 ^ bit_length n" by simp
  then have "real_of_int (n + 1) \<le> 2 ^ bit_length n"
    by (metis of_int_le_iff of_int_numeral of_int_power)
  ultimately have "q < 2 ^ bit_length n" by simp
  moreover from pos have "ilog2 q + 1 = int (bit_length n)" by (simp add: e)
  then have "pow2 (ilog2 q + 1) = 2 ^ bit_length n" by (simp only: pow2_nat)
  ultimately have "q < pow2 (ilog2 q + 1)" by linarith
  with lo show ?thesis by simp
next
  case False
  define x where "x = 1 / q"
  define m where "m = \<lceil>x\<rceil> - 1"
  from False assms have x1: "1 < x" by (simp add: x_def)
  then have m1: "1 \<le> m" by (simp add: m_def)
  then have b: "2 ^ (bit_length m - 1) \<le> m" "m < 2 ^ bit_length m"
    using bit_length_bounds by blast+
  from m1 have pos: "0 < bit_length m" by (subst bit_length.simps) simp
  from False have e: "ilog2 q = - int (bit_length m)"
    by (simp add: ilog2_def m_def x_def)
  have mx: "real_of_int m < x" "x \<le> real_of_int m + 1"
    by (simp_all add: m_def) linarith+
  from b(2) have "m + 1 \<le> 2 ^ bit_length m" by simp
  then have "real_of_int (m + 1) \<le> 2 ^ bit_length m"
    by (metis of_int_le_iff of_int_numeral of_int_power)
  with mx(2) have "x \<le> 2 ^ bit_length m" by simp
  then have "1 / 2 ^ bit_length m \<le> 1 / x"
    using x1 by (intro divide_left_mono) simp_all
  moreover have "pow2 (ilog2 q) = 1 / 2 ^ bit_length m" by (simp only: e pow2_neg_nat)
  moreover from assms have "1 / x = q" by (simp add: x_def)
  ultimately have lo: "pow2 (ilog2 q) \<le> q" by linarith
  from b(1) have "(2::real) ^ (bit_length m - 1) \<le> real_of_int m"
    by (metis of_int_le_iff of_int_numeral of_int_power)
  with mx(1) have "(2::real) ^ (bit_length m - 1) < x" by linarith
  then have "1 / x < 1 / 2 ^ (bit_length m - 1)"
    using x1 by (intro divide_strict_left_mono) simp_all
  moreover from pos have "ilog2 q + 1 = - int (bit_length m - 1)" by (simp add: e)
  then have "pow2 (ilog2 q + 1) = 1 / 2 ^ (bit_length m - 1)" by (simp only: pow2_neg_nat)
  moreover from assms have "1 / x = q" by (simp add: x_def)
  ultimately have "q < pow2 (ilog2 q + 1)" by linarith
  with lo show ?thesis by simp
qed

lemma round_half_even_error: "\<bar>real_of_int (round_half_even x) - x\<bar> \<le> 1 / 2"
  unfolding round_half_even_def by (auto simp: abs_le_iff)

lemma round_f64_error:
  assumes "pow2 (- 1022) \<le> q" and "q < pow2 1023"
  shows "\<exists>r. round_f64 s q = FNum s r \<and> \<bar>r - q\<bar> \<le> q / 2 ^ 53"
proof -
  from assms(1) pow2_pos [of "- 1022"] have q: "0 < q" by linarith
  define e where "e = ilog2 q"
  from q have lo: "pow2 e \<le> q" and hi: "q < pow2 (e + 1)"
    using ilog2_bounds by (simp_all add: e_def)
  from assms(1) hi have "pow2 (- 1022) < pow2 (e + 1)" by linarith
  then have "- 1022 \<le> e" by (simp add: pow2_less_iff)
  then have u: "quantum q = pow2 (e - 52)" by (simp add: quantum_def e_def max_def)
  have "pow2 (e - 52) = pow2 e * pow2 (- 52)"
    using pow2_add [of e "- 52"] by simp
  also have "pow2 (- 52) = 1 / 2 ^ 52" by (simp add: pow2_def)
  finally have ue: "quantum q = pow2 e / 2 ^ 52" by (simp add: u)
  with pow2_pos [of e] have upos: "0 < quantum q" by simp
  from ue lo have ule: "quantum q \<le> q / 2 ^ 52" by (simp add: divide_right_mono)
  define n where "n = round_half_even (q / quantum q)"
  define r where "r = real_of_int n * quantum q"
  have "\<bar>real_of_int n - q / quantum q\<bar> \<le> 1 / 2"
    unfolding n_def by (rule round_half_even_error)
  then have "\<bar>real_of_int n - q / quantum q\<bar> * quantum q \<le> 1 / 2 * quantum q"
    using upos by (intro mult_right_mono) simp_all
  moreover have "(real_of_int n - q / quantum q) * quantum q = r - q"
    using upos by (simp add: r_def left_diff_distrib)
  moreover have "\<bar>real_of_int n - q / quantum q\<bar> * quantum q =
      \<bar>(real_of_int n - q / quantum q) * quantum q\<bar>"
    by (rule abs_mult_pos) (use upos in simp)
  ultimately have "\<bar>r - q\<bar> \<le> quantum q / 2" by simp
  with ule have err: "\<bar>r - q\<bar> \<le> q / 2 ^ 53" by simp
  then have "r \<le> q + q / 2 ^ 53" by linarith
  also from q have "\<dots> < 2 * q" by simp
  also from assms(2) have "\<dots> < 2 * pow2 1023" by simp
  also have "\<dots> = pow2 1024" by (simp add: pow2_def)
  finally have "\<not> pow2 1024 \<le> r" by simp
  with q have "round_f64 s q = FNum s r"
    by (simp add: round_f64_def r_def n_def)
  with err show ?thesis by blast
qed

lemma quotient_of_rounded:
  fixes qa qb ra rb r u :: real
  assumes "0 < qa" and "0 < qb" and "0 \<le> u" and "u \<le> 1 / 5"
    and "\<bar>ra - qa\<bar> \<le> qa * u" and "\<bar>rb - qb\<bar> \<le> qb * u"
    and "\<bar>r - rb / ra\<bar> \<le> rb / ra * u"
  shows "\<bar>r - qb / qa\<bar> \<le> qb / qa * (4 * u)"
proof -
  define t where "t = qb / qa"
  from assms(1,2) have t: "0 < t" by (simp add: t_def)
  from assms(3,4) have u1: "0 < 1 - u" "0 < 1 + u" by simp_all
  from assms(5) have ra: "qa * (1 - u) \<le> ra" "ra \<le> qa * (1 + u)"
    by (simp_all add: abs_le_iff algebra_simps)
  from assms(6) have rb: "qb * (1 - u) \<le> rb" "rb \<le> qb * (1 + u)"
    by (simp_all add: abs_le_iff algebra_simps)
  from assms(1) u1 have "0 < qa * (1 - u)" by simp
  with ra(1) have ra_pos: "0 < ra" by linarith
  from assms(2) u1 have "0 < qb * (1 - u)" by simp
  with rb(1) have rb_pos: "0 < rb" by linarith
  have up: "rb / ra \<le> qb * (1 + u) / (qa * (1 - u))"
    using rb_pos rb(2) \<open>0 < qa * (1 - u)\<close> ra(1) by (intro frac_le) simp_all
  have dn: "qb * (1 - u) / (qa * (1 + u)) \<le> rb / ra"
    using \<open>0 < qb * (1 - u)\<close> rb(1) ra_pos ra(2) by (intro frac_le) simp_all
  have up': "qb * (1 + u) / (qa * (1 - u)) = t * ((1 + u) / (1 - u))"
    by (simp add: t_def)
  have dn': "qb * (1 - u) / (qa * (1 + u)) = t * ((1 - u) / (1 + u))"
    by (simp add: t_def)
  have "(1 + 4 * u) * (1 - u) - (1 + u) * (1 + u) = u * (1 - 5 * u)"
    by (simp add: algebra_simps)
  moreover from assms(3,4) have "0 \<le> u * (1 - 5 * u)" by simp
  ultimately have "(1 + u) * (1 + u) \<le> (1 + 4 * u) * (1 - u)" by linarith
  with u1 have khi: "(1 + u) / (1 - u) * (1 + u) \<le> 1 + 4 * u"
    by (simp add: pos_divide_le_eq)
  have "(1 - u) * (1 - u) - (1 - 4 * u) * (1 + u) = u * (1 + 5 * u)"
    by (simp add: algebra_simps)
  moreover from assms(3) have "0 \<le> u * (1 + 5 * u)" by simp
  ultimately have "(1 - 4 * u) * (1 + u) \<le> (1 - u) * (1 - u)" by linarith
  with u1 have klo: "1 - 4 * u \<le> (1 - u) / (1 + u) * (1 - u)"
    by (simp add: pos_le_divide_eq)
  define x where "x = rb / ra"
  from assms(7) have "\<bar>r - x\<bar> \<le> x * u" by (simp add: x_def)
  then have "x * (1 - u) \<le> r" "r \<le> x * (1 + u)"
    by (simp_all add: abs_le_iff algebra_simps)
  then have r: "rb / ra * (1 - u) \<le> r" "r \<le> rb / ra * (1 + u)"
    by (simp_all add: x_def)
  from up have up2: "rb / ra \<le> t * ((1 + u) / (1 - u))" unfolding up' .
  from dn have dn2: "t * ((1 - u) / (1 + u)) \<le> rb / ra" unfolding dn' .
  from up2 have "rb / ra * (1 + u) \<le> t * ((1 + u) / (1 - u)) * (1 + u)"
    by (rule mult_right_mono) (use u1 in simp)
  also have "\<dots> = t * ((1 + u) / (1 - u) * (1 + u))" by (simp only: mult.assoc)
  also from khi have "\<dots> \<le> t * (1 + 4 * u)"
    by (rule mult_left_mono) (use t in simp)
  finally have hi: "r \<le> t * (1 + 4 * u)" using r(2) by linarith
  from klo have "t * (1 - 4 * u) \<le> t * ((1 - u) / (1 + u) * (1 - u))"
    by (rule mult_left_mono) (use t in simp)
  also have "\<dots> = t * ((1 - u) / (1 + u)) * (1 - u)" by (simp only: mult.assoc)
  also from dn2 have "\<dots> \<le> rb / ra * (1 - u)"
    by (rule mult_right_mono) (use u1 in simp)
  finally have lo: "t * (1 - 4 * u) \<le> r" using r(1) by linarith
  from hi lo have "\<bar>r - t\<bar> \<le> t * (4 * u)"
    by (simp add: abs_le_iff algebra_simps)
  then show ?thesis by (simp add: t_def)
qed

lemma scaled_in_range:
  assumes "1 / 2 ^ 500 \<le> m" and "m \<le> 2 ^ 500"
  shows "pow2 (- 1022) \<le> m / 1000000000 \<and> m / 1000000000 < pow2 1023"
proof -
  have "pow2 (- 1022) \<le> (1 / 2 ^ 500) / 1000000000"
    by (simp add: pow2_def)
  also from assms(1) have "\<dots> \<le> m / 1000000000"
    by (rule divide_right_mono) simp
  finally have lo: "pow2 (- 1022) \<le> m / 1000000000" .
  from assms(2) have "m / 1000000000 \<le> 2 ^ 500 / 1000000000"
    by (rule divide_right_mono) simp
  also have "\<dots> < pow2 1023" by (simp add: pow2_def)
  finally show ?thesis using lo by simp
qed

lemma rounded_within_factor_two:
  fixes q r :: real
  assumes "0 < q" and "\<bar>r - q\<bar> \<le> q / 2 ^ 53"
  shows "q / 2 \<le> r \<and> r \<le> 2 * q"
proof -
  from assms(1) have "q / 2 ^ 53 \<le> q / 2"
    by (intro divide_left_mono) simp_all
  with assms(2) have "\<bar>r - q\<bar> \<le> q / 2" by (rule order_trans)
  then have "r - q \<le> q / 2" and "- (r - q) \<le> q / 2"
    by (simp_all only: abs_le_iff)
  then show ?thesis by linarith
qed

lemma scaled_quotient_error:
  assumes "1 / 2 ^ 500 \<le> ma" and "ma \<le> 2 ^ 500" and "1 / 2 ^ 500 \<le> mb" and "mb \<le> 2 ^ 500"
  shows "\<exists>q. f64_div (f64_div (FNum sb mb) billion) (f64_div (FNum sa ma) billion) =
              FNum (sb \<noteq> sa) q \<and>
            \<bar>q - mb / ma\<bar> \<le> mb / ma / 2 ^ 51"
proof -
  define qa where "qa = ma / 1000000000"
  define qb where "qb = mb / 1000000000"
  from assms(1) have ma: "0 < ma" by (rule less_le_trans [rotated]) simp
  from assms(3) have mb: "0 < mb" by (rule less_le_trans [rotated]) simp
  from ma mb have qpos: "0 < qa" "0 < qb" by (simp_all add: qa_def qb_def)
  from assms(1,2) have "pow2 (- 1022) \<le> qa \<and> qa < pow2 1023"
    unfolding qa_def by (rule scaled_in_range)
  then obtain ra where ra: "round_f64 sa qa = FNum sa ra" "\<bar>ra - qa\<bar> \<le> qa / 2 ^ 53"
    using round_f64_error by blast
  from assms(3,4) have "pow2 (- 1022) \<le> qb \<and> qb < pow2 1023"
    unfolding qb_def by (rule scaled_in_range)
  then obtain rb where rb: "round_f64 sb qb = FNum sb rb" "\<bar>rb - qb\<bar> \<le> qb / 2 ^ 53"
    using round_f64_error by blast
  have da: "f64_div (FNum sa ma) billion = FNum sa ra"
    using ra(1) by (simp add: billion_def qa_def)
  have db: "f64_div (FNum sb mb) billion = FNum sb rb"
    using rb(1) by (simp add: billion_def qb_def)
  from qpos(1) ra(2) have ra2: "qa / 2 \<le> ra" "ra \<le> 2 * qa"
    using rounded_within_factor_two by blast+
  from qpos(2) rb(2) have rb2: "qb / 2 \<le> rb" "rb \<le> 2 * qb"
    using rounded_within_factor_two by blast+
  from qpos ra2 rb2 have pos: "0 < ra" "0 < rb" by simp_all
  have t: "qb / qa = mb / ma" by (simp add: qa_def qb_def)
  have "1 / 2 ^ 500 / 2 ^ 500 \<le> mb / ma"
    using assms(2,3) ma by (intro frac_le) simp_all
  then have tlo: "1 / 2 ^ 1000 \<le> qb / qa" by (simp add: t)
  have "mb / ma \<le> 2 ^ 500 / (1 / 2 ^ 500)"
    using assms(1,4) mb by (intro frac_le) simp_all
  then have thi: "qb / qa \<le> 2 ^ 1000" by (simp add: t)
  have "pow2 (- 1022) \<le> 1 / 2 ^ 1000 / 4" by (simp add: pow2_def)
  also from tlo have "\<dots> \<le> qb / qa / 4" by (rule divide_right_mono) simp
  also have "\<dots> = qb / 2 / (2 * qa)" by simp
  also have "\<dots> \<le> rb / ra"
    using qpos rb2(1) ra2(2) pos by (intro frac_le) simp_all
  finally have xlo: "pow2 (- 1022) \<le> rb / ra" .
  have "rb / ra \<le> 2 * qb / (qa / 2)"
    using qpos rb2(2) ra2(1) pos by (intro frac_le) simp_all
  also have "\<dots> = 4 * (qb / qa)" by simp
  also from thi have "\<dots> \<le> 4 * 2 ^ 1000" by (rule mult_left_mono) simp
  also have "\<dots> < pow2 1023" by (simp add: pow2_def)
  finally have xhi: "rb / ra < pow2 1023" .
  from xlo xhi obtain r where r: "round_f64 (sb \<noteq> sa) (rb / ra) = FNum (sb \<noteq> sa) r"
      "\<bar>r - rb / ra\<bar> \<le> rb / ra / 2 ^ 53"
    using round_f64_error by blast
  from pos have d: "f64_div (FNum sb rb) (FNum sa ra) = FNum (sb \<noteq> sa) r"
    using r(1) by simp
  have "\<bar>r - qb / qa\<bar> \<le> qb / qa * (4 * (1 / 2 ^ 53))"
    using qpos ra(2) rb(2) r(2) by (intro quotient_of_rounded [where ra = ra and rb = rb]) simp_all
  then have "\<bar>r - mb / ma\<bar> \<le> mb / ma / 2 ^ 51" by (simp add: t)
  with da db d show ?thesis by simp
qed

subsection \<open>Positions in the loaded frame\<close>

lemma nth_concat_blocks:
  "list_all (\<lambda>y. length (f y) = n) ys \<Longrightarrow> j < length ys \<Longrightarrow> i < n \<Longrightarrow>
   concat (map f ys) ! (j * n + i) = f (ys ! j) ! i"
proof (induction ys arbitrary: j)
  case Nil
  then show ?case by simp
next
  case (Cons a ys)
  from Cons.prems(1) have la: "length (f a) = n" and rest: "list_all (\<lambda>y. length (f y) = n) ys"
    by simp_all
  show ?case
  proof (cases j)
    case 0
    with la Cons.prems(3) show ?thesis by (simp add: nth_append)
  next
    case (Suc k)
    with Cons.prems(2) have k: "k < length ys" by simp
    have "concat (map f (a # ys)) ! (Suc k * n + i) = concat (map f ys) ! (k * n + i)"
      using la by (simp add: nth_append)
    also from rest k Cons.prems(3) have "\<dots> = f (ys ! k) ! i" by (rule Cons.IH)
    finally show ?thesis using Suc by simp
  qed
qed

lemma years_nth:
  assumes "MIN_YEAR \<le> y" and "y \<le> MAX_YEAR"
  shows "nat (y - MIN_YEAR) < length [MIN_YEAR..MAX_YEAR] \<and>
         [MIN_YEAR..MAX_YEAR] ! nat (y - MIN_YEAR) = y"
  using assms by (simp add: nth_upto)

subsection \<open>The lookups of one metric\<close>

lemma year_country_filter:
  "filter (\<lambda>r. country_code r = c) (filter (\<lambda>r. year r = y) gdp_df) =
   filter (\<lambda>r. year r = y \<and> country_code r = c) gdp_df"
  by (simp add: conj_commute)

lemma country_gdp_lookup:
  "country_gdp (first_year_data gdp_df y) c =
     (case filter (\<lambda>r. year r = y \<and> country_code r = c) gdp_df of
        [] \<Rightarrow> Inl IndexError | r # rs \<Rightarrow> Inr (gdp r))"
  "country_gdp (last_year_data gdp_df y) c =
     (case filter (\<lambda>r. year r = y \<and> country_code r = c) gdp_df of
        [] \<Rightarrow> Inl IndexError | r # rs \<Rightarrow> Inr (gdp r))"
  by (simp_all add: country_gdp_filter first_year_data_filter last_year_data_filter
      year_country_filter split: list.splits)

lemma metrics_loop_takeWhile:
  "map Inr (fst (metrics_loop g f t cs)) =
     takeWhile (\<lambda>x. \<not> isl x) (map (country_metric g f t) cs)"
  by (induction cs) (auto split: sum.splits)

lemma metrics_loop_nth:
  assumes "i < length (fst (metrics_loop g f t cs))"
  shows "Inr (fst (metrics_loop g f t cs) ! i) = country_metric g f t (cs ! i)"
proof -
  let ?ys = "map (country_metric g f t) cs"
  from assms have i: "i < length (takeWhile (\<lambda>x. \<not> isl x) ?ys)"
    by (metis length_map metrics_loop_takeWhile)
  then have "i < length ?ys"
    using length_takeWhile_le [of "\<lambda>x. \<not> isl x" ?ys] by linarith
  then have ics: "i < length cs" by simp
  from assms have "Inr (fst (metrics_loop g f t cs) ! i) = map Inr (fst (metrics_loop g f t cs)) ! i"
    by simp
  also have "\<dots> = takeWhile (\<lambda>x. \<not> isl x) ?ys ! i"
    by (simp only: metrics_loop_takeWhile)
  also from i have "\<dots> = ?ys ! i" by (rule takeWhile_nth)
  also from ics have "\<dots> = country_metric g f t (cs ! i)" by simp
  finally show ?thesis .
qed

subsection \<open>Evaluation on the reference data\<close>

lemmas f64_eval = ilog2_def bit_length.simps pow2_def round_half_even_def quantum_def round_f64_def
  billion_def
lemmas text_eval = digits.simps group3.simps digit_char_def pad2_def pad3_def sign_str_def
lemmas frame_eval = select_rows_def first_year_data_def last_year_data_def country_gdp_def

lemma demo_raw_ids: "country_code_col demo_raw = Some [''DEU'', ''XYZ'']"
  by (simp add: demo_raw_def)

lemma demo_raw_rows: "n_rows demo_raw = 2"
  by (simp add: demo_raw_def)

lemma wf_demo_raw: "wf_raw demo_raw"
  by (simp add: wf_raw_def demo_raw_def list_all_iff)

lemma has_columns_demo_raw: "has_columns demo_raw"
  by (auto simp: has_columns_def demo_raw_def list_all_iff map_of_eq_None_iff image_iff)

lemma demo_raw_1960:
  "map_of (year_cols demo_raw) (str_int 1960) = Some [FNum False 100, FNaN]"
  by (simp add: demo_raw_def MIN_YEAR_def MAX_YEAR_def upto_rec1 [of 1960 2022])

lemma demo_first:
  "country_gdp (first_year_data demo_df 1960) ''DEU'' = Inr (FNum False 100)"
  "country_gdp (first_year_data demo_df 1960) ''XYZ'' = Inr FNaN"
  "country_gdp (first_year_data demo_df 1960) ''ZER'' = Inr (FNum False 0)"
  "country_gdp (first_year_data demo_df 1960) ''NOL'' = Inr (FNum False 50)"
  "country_gdp (first_year_data demo_df 1960) ''AAA'' = Inr (FNum False 8)"
  by (simp_all add: demo_df_def frame_eval)

lemma demo_last:
  "country_gdp (last_year_data demo_df 2022) ''DEU'' = Inr (FNum False 450)"
  "country_gdp (last_year_data demo_df 2022) ''XYZ'' = Inr (FNum False 200)"
  "country_gdp (last_year_data demo_df 2022) ''ZER'' = Inr (FNum False 5)"
  "country_gdp (last_year_data demo_df 2022) ''NOL'' = Inr FNaN"
  "country_gdp (last_year_data demo_df 2022) ''AAA'' = Inr (FNum False 7)"
  by (simp_all add: demo_df_def frame_eval)

lemma demo_gap: "filter (\<lambda>r. country_code r = ''GAP'') (first_year_data demo_df 1960) = []"
  by (simp add: demo_df_def frame_eval)

lemma demo_raw_1961:
  "map_of (year_cols demo_raw) (str_int 1961) = Some [FNum False 100, FNaN]"
  by (simp add: demo_raw_def MIN_YEAR_def MAX_YEAR_def upto_rec1 [of 1960 2022]
      upto_rec1 [of 1961 2022] str_int_def digits.simps digit_char_def)

lemma demo_pages:
  "metrics_loop demo_df 1960 2022 [''XYZ'', ''GAP''] =
     ([\<lparr>m_label = ''XYZ GDP'',
        m_value = format_comma_0f (f64_div (FNum False 200) billion) @ ''B USD'',
        m_delta = ''N/A'', m_delta_color = ''off''\<rparr>], Some IndexError)"
  "metrics_loop demo_df 1960 2022 [''DEU'', ''XYZ''] =
     ([\<lparr>m_label = ''DEU GDP'',
        m_value = format_comma_0f (f64_div (FNum False 450) billion) @ ''B USD'',
        m_delta = format_2f (f64_div (f64_div (FNum False 450) billion)
                    (f64_div (FNum False 100) billion)) @ ''x'',
        m_delta_color = ''normal''\<rparr>,
       \<lparr>m_label = ''XYZ GDP'',
        m_value = format_comma_0f (f64_div (FNum False 200) billion) @ ''B USD'',
        m_delta = ''N/A'', m_delta_color = ''off''\<rparr>], None)"
  by (simp_all only: metrics_loop.simps country_metric_values [OF demo_first(1) demo_last(1)]
      country_metric_values [OF demo_first(2) demo_last(2)]
      country_metric_missing [of "''GAP''" demo_df 1960 2022, OF disjI1, OF demo_gap]
      sum.case fst_conv snd_conv f64.distinct if_True if_False simp_thms append.simps)

section \<open>The claims\<close>

subsection \<open>C1: the growth ratio\<close>

text \<open>
  C1, as the script computes it. When both boundary rows of a country exist and the value at
  \<open>from_year\<close> is not NaN, the delta of the metric is the \<open>.2f\<close> rendering, with the suffix
  \<open>x\<close>, of the float64 quotient of the two values after each has been divided by \<open>1e9\<close> in
  float64 arithmetic. Each of the three divisions rounds, so the scaling cancels only up to
  rounding: for magnitudes between \<open>2\<^sup>-\<^sup>5\<^sup>0\<^sup>0\<close> and \<open>2\<^sup>5\<^sup>0\<^sup>0\<close> the number rendered is
  within a relative error of \<open>2\<^sup>-\<^sup>5\<^sup>1\<close> of the quotient of the raw values, with the sign of
  that quotient.
\<close>

theorem growth_ratio_of_scaled_values:
  assumes "country_gdp (first_year_data gdp_df f) c = Inr a" and "a \<noteq> FNaN"
    and "country_gdp (last_year_data gdp_df t) c = Inr b"
  shows "\<exists>m. country_metric gdp_df f t c = Inr m \<and>
           m_delta m = format_2f (f64_div (f64_div b billion) (f64_div a billion)) @ ''x'' \<and>
           (\<forall>sa ma sb mb.
              a = FNum sa ma \<and> b = FNum sb mb \<and>
              1 / 2 ^ 500 \<le> ma \<and> ma \<le> 2 ^ 500 \<and> 1 / 2 ^ 500 \<le> mb \<and> mb \<le> 2 ^ 500 \<longrightarrow>
              (\<exists>q. m_delta m = format_2f (FNum (sb \<noteq> sa) q) @ ''x'' \<and>
                   \<bar>q - mb / ma\<bar> \<le> mb / ma / 2 ^ 51))"
proof -
  define m where "m = \<lparr>m_label = c @ '' GDP'',
      m_value = format_comma_0f (f64_div b billion) @ ''B USD'',
      m_delta = format_2f (f64_div (f64_div b billion) (f64_div a billion)) @ ''x'',
      m_delta_color = ''normal''\<rparr>"
  from assms have 1: "country_metric gdp_df f t c = Inr m"
    by (simp add: country_metric_values m_def)
  have 2: "m_delta m = format_2f (f64_div (f64_div b billion) (f64_div a billion)) @ ''x''"
    by (simp add: m_def)
  have 3: "\<exists>q. m_delta m = format_2f (FNum (sb \<noteq> sa) q) @ ''x'' \<and>
        \<bar>q - mb / ma\<bar> \<le> mb / ma / 2 ^ 51"
    if "a = FNum sa ma \<and> b = FNum sb mb \<and>
        1 / 2 ^ 500 \<le> ma \<and> ma \<le> 2 ^ 500 \<and> 1 / 2 ^ 500 \<le> mb \<and> mb \<le> 2 ^ 500"
    for sa ma sb mb
  proof -
    from that obtain q where
      "f64_div (f64_div (FNum sb mb) billion) (f64_div (FNum sa ma) billion) = FNum (sb \<noteq> sa) q"
      "\<bar>q - mb / ma\<bar> \<le> mb / ma / 2 ^ 51"
      using scaled_quotient_error [of ma mb sb sa] by blast
    with that 2 show ?thesis by auto
  qed
  from 1 2 3 show ?thesis by blast
qed

text \<open>
  C1, the example of the specification: \<open>gdp(DEU, 1960) = 100\<close> and
  \<open>gdp(DEU, 2022) = 450\<close> give \<open>4.50x\<close>.
\<close>

theorem growth_ratio_of_scaled_values_witness:
  "country_gdp (first_year_data demo_df 1960) ''DEU'' = Inr (FNum False 100) \<and>
   FNum False 100 \<noteq> FNaN \<and>
   country_gdp (last_year_data demo_df 2022) ''DEU'' = Inr (FNum False 450) \<and>
   (1::real) / 2 ^ 500 \<le> 100 \<and> (100::real) \<le> 2 ^ 500 \<and>
   (1::real) / 2 ^ 500 \<le> 450 \<and> (450::real) \<le> 2 ^ 500 \<and>
   (\<exists>m. country_metric demo_df 1960 2022 ''DEU'' = Inr m \<and> m_delta m = ''4.50x'' \<and>
      (\<exists>q. m_delta m = format_2f (FNum False q) @ ''x'' \<and>
           \<bar>q - 450 / 100\<bar> \<le> 450 / 100 / 2 ^ 51))"
proof -
  have r: "(1::real) / 2 ^ 500 \<le> 100" "(100::real) \<le> 2 ^ 500"
      "(1::real) / 2 ^ 500 \<le> 450" "(450::real) \<le> 2 ^ 500"
    by simp_all
  have n: "FNum False 100 \<noteq> FNaN" by simp
  from growth_ratio_of_scaled_values [OF demo_first(1) n demo_last(1)]
  obtain m where m: "country_metric demo_df 1960 2022 ''DEU'' = Inr m"
      "m_delta m =
         format_2f (f64_div (f64_div (FNum False 450) billion) (f64_div (FNum False 100) billion)) @ ''x''"
    and b: "\<forall>sa ma sb mb.
        FNum False 100 = FNum sa ma \<and> FNum False 450 = FNum sb mb \<and>
        1 / 2 ^ 500 \<le> ma \<and> ma \<le> 2 ^ 500 \<and> 1 / 2 ^ 500 \<le> mb \<and> mb \<le> 2 ^ 500 \<longrightarrow>
        (\<exists>q. m_delta m = format_2f (FNum (sb \<noteq> sa) q) @ ''x'' \<and>
             \<bar>q - mb / ma\<bar> \<le> mb / ma / 2 ^ 51)"
    by blast
  from m(2) have d: "m_delta m = ''4.50x''"
    by (simp add: f64_eval text_eval)
  from b r have "\<exists>q. m_delta m = format_2f (FNum (False \<noteq> False) q) @ ''x'' \<and>
      \<bar>q - 450 / 100\<bar> \<le> 450 / 100 / 2 ^ 51"
    by blast
  then have "\<exists>q. m_delta m = format_2f (FNum False q) @ ''x'' \<and>
      \<bar>q - 450 / 100\<bar> \<le> 450 / 100 / 2 ^ 51"
    by (simp only: simp_thms)
  with m(1) d have "\<exists>m. country_metric demo_df 1960 2022 ''DEU'' = Inr m \<and> m_delta m = ''4.50x'' \<and>
      (\<exists>q. m_delta m = format_2f (FNum False q) @ ''x'' \<and>
           \<bar>q - 450 / 100\<bar> \<le> 450 / 100 / 2 ^ 51)"
    by blast
  with demo_first(1) n demo_last(1) r show ?thesis by blast
qed

text \<open>
  C1 as stated fails: the scaling does not cancel. For \<open>gdp(AAA, 1960) = 8\<close> and
  \<open>gdp(AAA, 2022) = 7\<close> the quotient of the raw values is \<open>0.875\<close>, which renders as
  \<open>0.88\<close>; the script divides \<open>7e-9\<close> by \<open>8e-9\<close>, gets \<open>0.8749999999999999\<close> and
  shows \<open>0.87x\<close>.
\<close>

theorem growth_ratio_of_raw_values_counterexample:
  "country_metric demo_df 1960 2022 ''AAA'' =
     Inr \<lparr>m_label = ''AAA GDP'', m_value = ''0B USD'', m_delta = ''0.87x'',
          m_delta_color = ''normal''\<rparr> \<and>
   format_2f (f64_div (FNum False 7) (FNum False 8)) @ ''x'' = ''0.88x''"
  by (simp add: country_metric_values [OF demo_first(5) demo_last(5)] f64_eval text_eval)

subsection \<open>C2: a missing start value against a zero start value\<close>

text \<open>
  C2. If the value at \<open>from_year\<close> is NaN, the delta is \<open>N/A\<close> and nothing is raised. If it
  is a zero (of either sign), the quotient is computed: float64 division by zero gives an
  infinity or NaN, the delta is its rendering with the suffix \<open>x\<close>, and it is not \<open>N/A\<close>.
\<close>

theorem missing_start_is_not_zero_start:
  "(country_gdp (first_year_data gdp_df f) c = Inr FNaN \<and>
    country_gdp (last_year_data gdp_df t) c = Inr b \<longrightarrow>
      (\<exists>m. country_metric gdp_df f t c = Inr m \<and> m_delta m = ''N/A'')) \<and>
   (country_gdp (first_year_data gdp_df f) c = Inr (FNum s 0) \<and>
    country_gdp (last_year_data gdp_df t) c = Inr b \<longrightarrow>
      (\<exists>m. country_metric gdp_df f t c = Inr m \<and>
           m_delta m = format_2f (f64_div (f64_div b billion) (FNum s 0)) @ ''x'' \<and>
           m_delta m \<in> {''nanx'', ''infx'', ''-infx''} \<and> m_delta m \<noteq> ''N/A''))"
proof (intro conjI impI)
  assume "country_gdp (first_year_data gdp_df f) c = Inr FNaN \<and>
    country_gdp (last_year_data gdp_df t) c = Inr b"
  then show "\<exists>m. country_metric gdp_df f t c = Inr m \<and> m_delta m = ''N/A''"
    by (simp add: country_metric_values)
next
  assume "country_gdp (first_year_data gdp_df f) c = Inr (FNum s 0) \<and>
    country_gdp (last_year_data gdp_df t) c = Inr b"
  then have m: "country_metric gdp_df f t c =
     Inr \<lparr>m_label = c @ '' GDP'',
          m_value = format_comma_0f (f64_div b billion) @ ''B USD'',
          m_delta = format_2f (f64_div (f64_div b billion) (FNum s 0)) @ ''x'',
          m_delta_color = ''normal''\<rparr>"
    by (simp add: country_metric_values f64_div_zero_billion)
  have "format_2f (f64_div (f64_div b billion) (FNum s 0)) \<in> {''nan'', ''inf'', ''-inf''}"
    using f64_div_by_zero [of "f64_div b billion" s] by (auto simp: sign_str_def)
  with m show "\<exists>m. country_metric gdp_df f t c = Inr m \<and>
           m_delta m = format_2f (f64_div (f64_div b billion) (FNum s 0)) @ ''x'' \<and>
           m_delta m \<in> {''nanx'', ''infx'', ''-infx''} \<and> m_delta m \<noteq> ''N/A''"
    by auto
qed

text \<open>
  C2 on the reference table: \<open>XYZ\<close> has no value for 1960 and 200 for 2022; \<open>ZER\<close> has 0
  for 1960 and 5 for 2022.
\<close>

theorem missing_start_is_not_zero_start_witness:
  "country_gdp (first_year_data demo_df 1960) ''XYZ'' = Inr FNaN \<and>
   country_gdp (last_year_data demo_df 2022) ''XYZ'' = Inr (FNum False 200) \<and>
   (\<exists>m. country_metric demo_df 1960 2022 ''XYZ'' = Inr m \<and> m_delta m = ''N/A'') \<and>
   country_gdp (first_year_data demo_df 1960) ''ZER'' = Inr (FNum False 0) \<and>
   country_gdp (last_year_data demo_df 2022) ''ZER'' = Inr (FNum False 5) \<and>
   (\<exists>m. country_metric demo_df 1960 2022 ''ZER'' = Inr m \<and> m_delta m = ''infx'')"
  using missing_start_is_not_zero_start [of demo_df 1960 "''XYZ''" 2022 "FNum False 200" False]
    missing_start_is_not_zero_start [of demo_df 1960 "''ZER''" 2022 "FNum False 5" False]
  by (simp add: demo_first demo_last f64_eval text_eval) blast

subsection \<open>C3: the filter\<close>

text \<open>
  C3. The filtered frame is the rows of the frame, in their order, whose country is selected
  and whose year lies between \<open>from_year\<close> and \<open>to_year\<close>; an empty selection gives the
  empty frame; and on the frame loaded from a table with one row per country, a single year
  of the range leaves exactly one row for each selected country of the table.
\<close>

theorem filter_contract:
  "filtered_gdp_df obs sel f t =
     filter (\<lambda>r. country_code r \<in> set sel \<and> f \<le> year r \<and> year r \<le> t) obs \<and>
   filtered_gdp_df obs [] f t = [] \<and>
   (wf_raw raw \<and> country_code_col raw = Some ids \<and> distinct ids \<and> has_columns raw \<and>
    MIN_YEAR \<le> y \<and> y \<le> MAX_YEAR \<and> c \<in> set sel \<and> c \<in> set ids \<longrightarrow>
      (\<exists>gdp_df. load_gdp_data raw = Inr gdp_df \<and>
         length (filter (\<lambda>r. country_code r = c) (filtered_gdp_df gdp_df sel y y)) = 1))"
proof (intro conjI impI)
  show "filtered_gdp_df obs sel f t =
     filter (\<lambda>r. country_code r \<in> set sel \<and> f \<le> year r \<and> year r \<le> t) obs"
    by (rule filtered_gdp_df_filter)
  show "filtered_gdp_df obs [] f t = []"
    by (simp add: filtered_gdp_df_filter)
  assume a: "wf_raw raw \<and> country_code_col raw = Some ids \<and> distinct ids \<and> has_columns raw \<and>
    MIN_YEAR \<le> y \<and> y \<le> MAX_YEAR \<and> c \<in> set sel \<and> c \<in> set ids"
  then have w: "wf_raw raw" and cc: "country_code_col raw = Some ids" and d: "distinct ids"
    and hc: "has_columns raw" and y: "MIN_YEAR \<le> y" "y \<le> MAX_YEAR"
    and c: "c \<in> set sel" "c \<in> set ids"
    by blast+
  from c(2) obtain i where i: "i < length ids" "ids ! i = c"
    by (auto simp: in_set_conv_nth)
  from hc y obtain xs where xs: "map_of (year_cols raw) (str_int y) = Some xs"
    using has_columns_column by blast
  from cc hc xs y obtain gdp_df where g: "load_gdp_data raw = Inr gdp_df"
      "filter (\<lambda>r. year r = y) gdp_df = year_block ids xs y"
    using year_rows_of_load by blast
  from w xs have lx: "length xs = n_rows raw" by (rule wf_raw_column)
  from w cc have li: "length ids = n_rows raw" by (simp add: wf_raw_def)
  have "filter (\<lambda>r. country_code r = c) (filtered_gdp_df gdp_df sel y y) =
      filter (\<lambda>r. country_code r = c) (filter (\<lambda>r. year r = y) gdp_df)"
    using c(1) by (auto simp: filtered_gdp_df_filter intro: filter_cong)
  also have "\<dots> = [\<lparr>country_code = c, year = y, gdp = xs ! i\<rparr>]"
    using d i lx li filter_code_block [of ids xs i y] by (simp add: g(2))
  finally show "\<exists>gdp_df. load_gdp_data raw = Inr gdp_df \<and>
         length (filter (\<lambda>r. country_code r = c) (filtered_gdp_df gdp_df sel y y)) = 1"
    using g(1) by simp
qed

theorem filter_contract_witness:
  "wf_raw demo_raw \<and> country_code_col demo_raw = Some [''DEU'', ''XYZ''] \<and>
   distinct [''DEU'', ''XYZ''] \<and> has_columns demo_raw \<and> MIN_YEAR \<le> 1960 \<and> 1960 \<le> MAX_YEAR \<and>
   ''XYZ'' \<in> set [''XYZ'', ''FRA''] \<and> ''XYZ'' \<in> set [''DEU'', ''XYZ''] \<and>
   (\<exists>gdp_df. load_gdp_data demo_raw = Inr gdp_df \<and>
      length (filter (\<lambda>r. country_code r = ''XYZ'')
        (filtered_gdp_df gdp_df [''XYZ'', ''FRA''] 1960 1960)) = 1) \<and>
   filtered_gdp_df demo_df [] 1960 2022 = []"
  using filter_contract [of demo_df "[]" 1960 2022 demo_raw "[''DEU'', ''XYZ'']" 1960 "''XYZ''"]
    filter_contract [of demo_df "[''XYZ'', ''FRA'']" 1960 2022 demo_raw "[''DEU'', ''XYZ'']" 1960 "''XYZ''"]
  by (simp add: wf_demo_raw has_columns_demo_raw demo_raw_ids MIN_YEAR_def MAX_YEAR_def)

subsection \<open>C4: reshaping, then filtering to one cell\<close>

text \<open>
  C4. For a table with one row per country, the row \<open>i\<close> and a year \<open>y\<close> of the range:
  loading the table and filtering by the country of the row and the year \<open>y\<close> gives exactly
  one observation, with that country, the year \<open>y\<close> and the cell of the row in the column of
  \<open>y\<close>.
\<close>

theorem reshape_filter_roundtrip:
  assumes "wf_raw raw" and "country_code_col raw = Some ids" and "distinct ids" and "has_columns raw"
    and "map_of (year_cols raw) (str_int y) = Some xs" and "MIN_YEAR \<le> y" and "y \<le> MAX_YEAR"
    and "i < n_rows raw"
  shows "\<exists>obs. load_gdp_data raw = Inr obs \<and>
           filtered_gdp_df obs [ids ! i] y y = [\<lparr>country_code = ids ! i, year = y, gdp = xs ! i\<rparr>]"
proof -
  from assms obtain obs where obs: "load_gdp_data raw = Inr obs"
      "filter (\<lambda>r. year r = y) obs = year_block ids xs y"
    using year_rows_of_load by blast
  from assms(1,5) have lx: "length xs = n_rows raw" by (rule wf_raw_column)
  from assms(1,2) have li: "length ids = n_rows raw" by (simp add: wf_raw_def)
  have "filtered_gdp_df obs [ids ! i] y y =
      filter (\<lambda>r. country_code r = ids ! i) (filter (\<lambda>r. year r = y) obs)"
    by (auto simp: filtered_gdp_df_filter intro: filter_cong)
  also have "\<dots> = [\<lparr>country_code = ids ! i, year = y, gdp = xs ! i\<rparr>]"
    using assms(3,8) lx li by (simp add: obs(2) filter_code_block)
  finally show ?thesis using obs(1) by simp
qed

theorem reshape_filter_roundtrip_witness:
  "wf_raw demo_raw \<and> country_code_col demo_raw = Some [''DEU'', ''XYZ''] \<and>
   distinct [''DEU'', ''XYZ''] \<and> has_columns demo_raw \<and>
   map_of (year_cols demo_raw) (str_int 1960) = Some [FNum False 100, FNaN] \<and>
   MIN_YEAR \<le> 1960 \<and> 1960 \<le> MAX_YEAR \<and> 1 < n_rows demo_raw \<and>
   (\<exists>obs. load_gdp_data demo_raw = Inr obs \<and>
      filtered_gdp_df obs [''XYZ''] 1960 1960 = [\<lparr>country_code = ''XYZ'', year = 1960, gdp = FNaN\<rparr>])"
  using reshape_filter_roundtrip [of demo_raw "[''DEU'', ''XYZ'']" 1960 "[FNum False 100, FNaN]" 1]
  by (simp add: wf_demo_raw has_columns_demo_raw demo_raw_1960 demo_raw_ids demo_raw_rows
      MIN_YEAR_def MAX_YEAR_def)

subsection \<open>C5: one observation for each row and year\<close>

text \<open>
  C5. A table that has the country column and the 63 year columns loads; the loaded frame
  has 63 times as many rows as the table; and for every year \<open>y\<close> of the range and every row
  \<open>i\<close> of the table the observation at position \<open>(y - 1960) * n_rows + i\<close> is the one of
  that row and year: its country, the year and its cell. These positions are distinct and
  fill the frame, so every pair of a row and a year has exactly one observation, none is
  skipped and none occurs twice.
\<close>

theorem reshape_complete:
  assumes "wf_raw raw" and "has_columns raw"
  shows "\<exists>obs ids. load_gdp_data raw = Inr obs \<and> country_code_col raw = Some ids \<and>
           length obs = n_rows raw * 63 \<and>
           (\<forall>y i xs. MIN_YEAR \<le> y \<and> y \<le> MAX_YEAR \<and> i < n_rows raw \<and>
                map_of (year_cols raw) (str_int y) = Some xs \<longrightarrow>
              obs ! (nat (y - MIN_YEAR) * n_rows raw + i) =
                \<lparr>country_code = ids ! i, year = y, gdp = xs ! i\<rparr>)"
proof -
  from assms(2) obtain ids where ids: "country_code_col raw = Some ids"
    by (auto simp: has_columns_def)
  define obs where "obs = concat (map (\<lambda>y. year_block ids (column raw y) y) [MIN_YEAR..MAX_YEAR])"
  from ids assms(2) have load: "load_gdp_data raw = Inr obs"
    by (simp add: load_gdp_data_present obs_def)
  from assms ids have cols: "list_all (\<lambda>y. length (column raw y) = length ids) [MIN_YEAR..MAX_YEAR]"
    by (simp add: wf_raw_columns)
  from assms(1) ids have li: "length ids = n_rows raw" by (simp add: wf_raw_def)
  from cols have "length obs = length ids * length [MIN_YEAR..MAX_YEAR]"
    unfolding obs_def by (rule length_blocks)
  moreover have "length [MIN_YEAR..MAX_YEAR] = 63" by (simp add: MIN_YEAR_def MAX_YEAR_def)
  ultimately have len: "length obs = n_rows raw * 63" by (simp add: li)
  from cols li have blocks:
    "list_all (\<lambda>y. length (year_block ids (column raw y) y) = n_rows raw) [MIN_YEAR..MAX_YEAR]"
    by (simp add: year_block_def list_all_iff)
  have pos: "obs ! (nat (y - MIN_YEAR) * n_rows raw + i) =
      \<lparr>country_code = ids ! i, year = y, gdp = xs ! i\<rparr>"
    if "MIN_YEAR \<le> y \<and> y \<le> MAX_YEAR \<and> i < n_rows raw \<and>
        map_of (year_cols raw) (str_int y) = Some xs" for y i xs
  proof -
    from that have y: "MIN_YEAR \<le> y" "y \<le> MAX_YEAR" and i: "i < n_rows raw"
      and xs: "map_of (year_cols raw) (str_int y) = Some xs"
      by blast+
    from y have j: "nat (y - MIN_YEAR) < length [MIN_YEAR..MAX_YEAR]"
      and jy: "[MIN_YEAR..MAX_YEAR] ! nat (y - MIN_YEAR) = y"
      using years_nth by blast+
    from blocks j i have "obs ! (nat (y - MIN_YEAR) * n_rows raw + i) =
        year_block ids (column raw ([MIN_YEAR..MAX_YEAR] ! nat (y - MIN_YEAR)))
          ([MIN_YEAR..MAX_YEAR] ! nat (y - MIN_YEAR)) ! i"
      unfolding obs_def by (rule nth_concat_blocks)
    also have "\<dots> = year_block ids xs y ! i"
      using xs by (simp only: jy column_Some)
    also have "\<dots> = \<lparr>country_code = ids ! i, year = y, gdp = xs ! i\<rparr>"
      using assms(1) xs li i wf_raw_column [of raw y xs] by (simp add: year_block_def)
    finally show ?thesis .
  qed
  from load ids len pos show ?thesis by blast
qed

text \<open>C5 on the reference table: the row of \<open>XYZ\<close> in 1961 is at position 3.\<close>

theorem reshape_complete_witness:
  "wf_raw demo_raw \<and> has_columns demo_raw \<and> MIN_YEAR \<le> 1961 \<and> 1961 \<le> MAX_YEAR \<and>
   1 < n_rows demo_raw \<and>
   map_of (year_cols demo_raw) (str_int 1961) = Some [FNum False 100, FNaN] \<and>
   (\<exists>obs. load_gdp_data demo_raw = Inr obs \<and> length obs = 126 \<and>
      obs ! 3 = \<lparr>country_code = ''XYZ'', year = 1961, gdp = FNaN\<rparr>)"
proof -
  have r: "MIN_YEAR \<le> 1961" "1961 \<le> MAX_YEAR" "1 < n_rows demo_raw"
    by (simp_all add: MIN_YEAR_def MAX_YEAR_def demo_raw_rows)
  from reshape_complete [OF wf_demo_raw has_columns_demo_raw]
  obtain obs ids where load: "load_gdp_data demo_raw = Inr obs"
    and ids: "country_code_col demo_raw = Some ids"
    and len: "length obs = n_rows demo_raw * 63"
    and pos: "\<forall>y i xs. MIN_YEAR \<le> y \<and> y \<le> MAX_YEAR \<and> i < n_rows demo_raw \<and>
                map_of (year_cols demo_raw) (str_int y) = Some xs \<longrightarrow>
              obs ! (nat (y - MIN_YEAR) * n_rows demo_raw + i) =
                \<lparr>country_code = ids ! i, year = y, gdp = xs ! i\<rparr>"
    by blast
  from ids have i: "ids = [''DEU'', ''XYZ'']" by (simp add: demo_raw_ids)
  from pos r demo_raw_1961 have
    "obs ! (nat (1961 - MIN_YEAR) * n_rows demo_raw + 1) =
       \<lparr>country_code = ids ! 1, year = 1961, gdp = [FNum False 100, FNaN] ! 1\<rparr>"
    by blast
  then have "obs ! 3 = \<lparr>country_code = ''XYZ'', year = 1961, gdp = FNaN\<rparr>"
    by (simp add: i MIN_YEAR_def demo_raw_rows)
  moreover from len have "length obs = 126" by (simp add: demo_raw_rows)
  ultimately show ?thesis
    using load r wf_demo_raw has_columns_demo_raw demo_raw_1961 by blast
qed

subsection \<open>C6: cells are copied as they are\<close>

text \<open>
  C6. The rows that the loaded frame has for a year \<open>y\<close> are the rows of the table, and
  the row \<open>i\<close> among them carries the cell \<open>v\<close> of the row \<open>i\<close> in the column of \<open>y\<close>,
  unchanged: a NaN cell gives a NaN observation.
\<close>

theorem missing_value_propagation:
  assumes "wf_raw raw" and "country_code_col raw = Some ids" and "has_columns raw"
    and "map_of (year_cols raw) (str_int y) = Some xs" and "MIN_YEAR \<le> y" and "y \<le> MAX_YEAR"
    and "i < n_rows raw" and "xs ! i = v"
  shows "\<exists>obs. load_gdp_data raw = Inr obs \<and>
           length (filter (\<lambda>r. year r = y) obs) = n_rows raw \<and>
           filter (\<lambda>r. year r = y) obs ! i = \<lparr>country_code = ids ! i, year = y, gdp = v\<rparr>"
proof -
  from assms obtain obs where obs: "load_gdp_data raw = Inr obs"
      "filter (\<lambda>r. year r = y) obs = year_block ids xs y"
    using year_rows_of_load by blast
  from assms(1,4) have lx: "length xs = n_rows raw" by (rule wf_raw_column)
  from assms(1,2) have li: "length ids = n_rows raw" by (simp add: wf_raw_def)
  from lx li assms(7,8) have "year_block ids xs y ! i = \<lparr>country_code = ids ! i, year = y, gdp = v\<rparr>"
    by (simp add: year_block_def)
  moreover from lx li have "length (year_block ids xs y) = n_rows raw"
    by (simp add: year_block_def)
  ultimately show ?thesis using obs by simp
qed

theorem missing_value_propagation_witness:
  "wf_raw demo_raw \<and> country_code_col demo_raw = Some [''DEU'', ''XYZ''] \<and>
   has_columns demo_raw \<and>
   map_of (year_cols demo_raw) (str_int 1960) = Some [FNum False 100, FNaN] \<and>
   MIN_YEAR \<le> 1960 \<and> 1960 \<le> MAX_YEAR \<and> 1 < n_rows demo_raw \<and>
   [FNum False 100, FNaN] ! 1 = FNaN \<and>
   (\<exists>obs. load_gdp_data demo_raw = Inr obs \<and>
      length (filter (\<lambda>r. year r = 1960) obs) = 2 \<and>
      filter (\<lambda>r. year r = 1960) obs ! 1 = \<lparr>country_code = ''XYZ'', year = 1960, gdp = FNaN\<rparr>)"
  using missing_value_propagation
    [of demo_raw "[''DEU'', ''XYZ'']" 1960 "[FNum False 100, FNaN]" 1 FNaN]
  by (simp add: wf_demo_raw has_columns_demo_raw demo_raw_1960 demo_raw_ids demo_raw_rows
      MIN_YEAR_def MAX_YEAR_def)

subsection \<open>C7: a table without an expected column\<close>

text \<open>
  C7. A table that lacks the country column or the column of a year from 1960 to 2022 does
  not load: \<open>melt\<close> raises a \<open>KeyError\<close> and no frame is returned. A header that is not the
  decimal text of such a year is not the header of an expected column, so it falls under the
  same case; on a table that has all the columns the conversion of the headers to integers
  always succeeds.
\<close>

theorem schema_failure:
  "(country_code_col raw = None \<or> (\<exists>y\<in>set [MIN_YEAR..MAX_YEAR]. map_of (year_cols raw) (str_int y) = None)
      \<longrightarrow> load_gdp_data raw = Inl KeyError) \<and>
   (\<not> (country_code_col raw = None \<or> (\<exists>y\<in>set [MIN_YEAR..MAX_YEAR]. map_of (year_cols raw) (str_int y) = None))
      \<longrightarrow> (\<exists>obs. load_gdp_data raw = Inr obs))"
proof -
  have "has_columns raw \<longleftrightarrow>
      \<not> (country_code_col raw = None \<or> (\<exists>y\<in>set [MIN_YEAR..MAX_YEAR]. map_of (year_cols raw) (str_int y) = None))"
    by (auto simp: has_columns_def list_all_iff)
  then show ?thesis
    using load_gdp_data_missing [of raw] load_gdp_data_present [of raw] by auto
qed

theorem schema_failure_witness:
  "map_of (year_cols empty_raw) (str_int 1960) = None \<and> load_gdp_data empty_raw = Inl KeyError \<and>
   has_columns demo_raw \<and> (\<exists>obs. load_gdp_data demo_raw = Inr obs)"
proof -
  have 1: "map_of (year_cols empty_raw) (str_int 1960) = None"
    by (simp add: empty_raw_def)
  have "(1960::int) \<in> set [MIN_YEAR..MAX_YEAR]"
    by (simp add: MIN_YEAR_def MAX_YEAR_def)
  with 1 have "\<exists>y\<in>set [MIN_YEAR..MAX_YEAR]. map_of (year_cols empty_raw) (str_int y) = None"
    by blast
  with schema_failure [of empty_raw] have 2: "load_gdp_data empty_raw = Inl KeyError"
    by blast
  have "\<not> (country_code_col demo_raw = None \<or>
      (\<exists>y\<in>set [MIN_YEAR..MAX_YEAR]. map_of (year_cols demo_raw) (str_int y) = None))"
    using has_columns_demo_raw by (auto simp: has_columns_def list_all_iff)
  with schema_failure [of demo_raw] have "\<exists>obs. load_gdp_data demo_raw = Inr obs"
    by blast
  with 1 2 has_columns_demo_raw show ?thesis by simp
qed

subsection \<open>C8: a country without a row for a boundary year\<close>

text \<open>
  C8, as the script behaves. If the frame has no row of the country for \<open>from_year\<close>, or
  none for \<open>to_year\<close>, the computation of its metric raises an \<open>IndexError\<close>. Nothing
  catches it: the loop over the selected countries ends there, with the metrics of the
  countries before it and none for this country or the ones after it.
\<close>

theorem missing_observation_stops_loop:
  assumes "filter (\<lambda>r. country_code r = c) (first_year_data gdp_df f) = [] \<or>
           filter (\<lambda>r. country_code r = c) (last_year_data gdp_df t) = []"
  shows "country_metric gdp_df f t c = Inl IndexError \<and>
         metrics_loop gdp_df f t (pre @ c # post) =
           (fst (metrics_loop gdp_df f t pre), Some IndexError)"
proof -
  from assms have m: "country_metric gdp_df f t c = Inl IndexError"
    by (rule country_metric_missing)
  then have l: "metrics_loop gdp_df f t (c # post) = ([], Some IndexError)" by simp
  show ?thesis
  proof (cases "snd (metrics_loop gdp_df f t pre)")
    case None
    with l m show ?thesis by (simp add: metrics_loop_append)
  next
    case (Some e)
    then have "e = IndexError" by (rule metrics_loop_error)
    with Some m show ?thesis by (simp add: metrics_loop_append prod_eq_iff)
  qed
qed

theorem missing_observation_stops_loop_witness:
  "filter (\<lambda>r. country_code r = ''GAP'') (first_year_data demo_df 1960) = [] \<and>
   country_metric demo_df 1960 2022 ''GAP'' = Inl IndexError \<and>
   metrics_loop demo_df 1960 2022 ([''XYZ''] @ ''GAP'' # [''DEU'']) =
     (fst (metrics_loop demo_df 1960 2022 [''XYZ'']), Some IndexError)"
  using missing_observation_stops_loop [of "''GAP''" demo_df 1960 2022 "[''XYZ'']" "[''DEU'']"]
  by (simp add: demo_gap)

text \<open>
  C8 as stated fails in its second half: with \<open>GAP\<close> and \<open>XYZ\<close> selected the page shows no
  metric at all, neither an \<open>N/A\<close> one for \<open>GAP\<close> nor the one of \<open>XYZ\<close>, which on its own
  is computed without error.
\<close>

theorem missing_observation_counterexample:
  "metrics (render demo_df 1960 2022 [''GAP'', ''XYZ'']) = [] \<and>
   exception (render demo_df 1960 2022 [''GAP'', ''XYZ'']) = Some IndexError \<and>
   m_delta ` set (metrics (render demo_df 1960 2022 [''XYZ''])) = {''N/A''} \<and>
   exception (render demo_df 1960 2022 [''XYZ'']) = None"
  by (simp add: render_def country_metric_missing [of "''GAP''" demo_df 1960 2022] demo_gap
      country_metric_values [OF demo_first(2) demo_last(2)])

subsection \<open>C9: the metrics do not depend on the selection\<close>

text \<open>
  C9. The metric of a country is computed from the whole frame, whatever is selected: from
  the first row of the frame with that country and the year \<open>from_year\<close> and the first with
  that country and the year \<open>to_year\<close>, and it is an \<open>IndexError\<close> if one of the two is
  missing. The metrics of a page are these results for the selected countries, in order, up
  to the first that fails. So whenever two pages for the same frame and years both show a
  metric for a country, it is the same metric, whatever else is selected and whether or not
  a later country fails.
\<close>

theorem metric_independent_of_selection:
  "country_metric gdp_df f t c =
     (case filter (\<lambda>r. year r = f \<and> country_code r = c) gdp_df of
        [] \<Rightarrow> Inl IndexError
      | r1 # rs1 \<Rightarrow>
          (case filter (\<lambda>r. year r = t \<and> country_code r = c) gdp_df of
             [] \<Rightarrow> Inl IndexError
           | r2 # rs2 \<Rightarrow>
               Inr \<lparr>m_label = c @ '' GDP'',
                    m_value = format_comma_0f (f64_div (gdp r2) billion) @ ''B USD'',
                    m_delta = (if gdp r1 = FNaN then ''N/A''
                               else format_2f (f64_div (f64_div (gdp r2) billion)
                                      (f64_div (gdp r1) billion)) @ ''x''),
                    m_delta_color = (if gdp r1 = FNaN then ''off'' else ''normal'')\<rparr>)) \<and>
   map Inr (metrics (render gdp_df f t sel)) =
     takeWhile (\<lambda>x. \<not> isl x) (map (country_metric gdp_df f t) sel) \<and>
   (\<forall>i j. i < length (metrics (render gdp_df f t sel1)) \<and>
          j < length (metrics (render gdp_df f t sel2)) \<and> sel1 ! i = sel2 ! j \<longrightarrow>
      metrics (render gdp_df f t sel1) ! i = metrics (render gdp_df f t sel2) ! j)"
proof (intro conjI allI impI)
  show "country_metric gdp_df f t c =
     (case filter (\<lambda>r. year r = f \<and> country_code r = c) gdp_df of
        [] \<Rightarrow> Inl IndexError
      | r1 # rs1 \<Rightarrow>
          (case filter (\<lambda>r. year r = t \<and> country_code r = c) gdp_df of
             [] \<Rightarrow> Inl IndexError
           | r2 # rs2 \<Rightarrow>
               Inr \<lparr>m_label = c @ '' GDP'',
                    m_value = format_comma_0f (f64_div (gdp r2) billion) @ ''B USD'',
                    m_delta = (if gdp r1 = FNaN then ''N/A''
                               else format_2f (f64_div (f64_div (gdp r2) billion)
                                      (f64_div (gdp r1) billion)) @ ''x''),
                    m_delta_color = (if gdp r1 = FNaN then ''off'' else ''normal'')\<rparr>))"
    by (simp add: country_metric_def country_gdp_lookup isnan_iff f64_div_billion_NaN
        split: list.splits)
  show "map Inr (metrics (render gdp_df f t sel)) =
     takeWhile (\<lambda>x. \<not> isl x) (map (country_metric gdp_df f t) sel)"
    by (simp add: render_def metrics_loop_takeWhile)
next
  fix i j
  assume a: "i < length (metrics (render gdp_df f t sel1)) \<and>
          j < length (metrics (render gdp_df f t sel2)) \<and> sel1 ! i = sel2 ! j"
  then have "Inr (metrics (render gdp_df f t sel1) ! i) = country_metric gdp_df f t (sel1 ! i)"
    by (simp add: render_def metrics_loop_nth)
  moreover from a have
    "Inr (metrics (render gdp_df f t sel2) ! j) = country_metric gdp_df f t (sel2 ! j)"
    by (simp add: render_def metrics_loop_nth)
  ultimately have "Inr (metrics (render gdp_df f t sel1) ! i) =
      (Inr (metrics (render gdp_df f t sel2) ! j) :: error + metric)"
    using a by simp
  then show "metrics (render gdp_df f t sel1) ! i = metrics (render gdp_df f t sel2) ! j"
    by (rule Inr_inject)
qed

text \<open>
  C9 on the reference frame: \<open>XYZ\<close> has the same metric on the page for \<open>XYZ\<close> and
  \<open>GAP\<close>, which ends in an exception after it, and on the page for \<open>DEU\<close> and \<open>XYZ\<close>.
\<close>

theorem metric_independent_of_selection_witness:
  "0 < length (metrics (render demo_df 1960 2022 [''XYZ'', ''GAP''])) \<and>
   1 < length (metrics (render demo_df 1960 2022 [''DEU'', ''XYZ''])) \<and>
   [''XYZ'', ''GAP''] ! 0 = [''DEU'', ''XYZ''] ! 1 \<and>
   metrics (render demo_df 1960 2022 [''XYZ'', ''GAP'']) ! 0 =
     metrics (render demo_df 1960 2022 [''DEU'', ''XYZ'']) ! 1 \<and>
   exception (render demo_df 1960 2022 [''XYZ'', ''GAP'']) = Some IndexError"
proof -
  have 1: "0 < length (metrics (render demo_df 1960 2022 [''XYZ'', ''GAP'']))"
    by (simp add: render_def demo_pages del: metrics_loop.simps)
  have 2: "1 < length (metrics (render demo_df 1960 2022 [''DEU'', ''XYZ'']))"
    by (simp add: render_def demo_pages del: metrics_loop.simps)
  have 3: "[''XYZ'', ''GAP''] ! 0 = [''DEU'', ''XYZ''] ! 1" by simp
  have 4: "exception (render demo_df 1960 2022 [''XYZ'', ''GAP'']) = Some IndexError"
    by (simp add: render_def demo_pages del: metrics_loop.simps)
  from metric_independent_of_selection [of demo_df 1960 2022 "''XYZ''" "[]" "[''XYZ'', ''GAP'']" "[''DEU'', ''XYZ'']"] 1 2 3
  have "metrics (render demo_df 1960 2022 [''XYZ'', ''GAP'']) ! 0 =
     metrics (render demo_df 1960 2022 [''DEU'', ''XYZ'']) ! 1"
    by blast
  with 1 2 3 4 show ?thesis by blast
qed

subsection \<open>C10: a missing end value\<close>

text \<open>
  C10. Only the value at \<open>from_year\<close> is tested for NaN. If it is not NaN and the value at
  \<open>to_year\<close> is, the metric is not marked \<open>N/A\<close>: its value is \<open>nanB USD\<close>, its delta
  \<open>nanx\<close>, and its delta colour \<open>normal\<close>.
\<close>

theorem missing_end_value_is_rendered_nan:
  assumes "country_gdp (first_year_data gdp_df f) c = Inr a" and "a \<noteq> FNaN"
    and "country_gdp (last_year_data gdp_df t) c = Inr FNaN"
  shows "country_metric gdp_df f t c =
     Inr \<lparr>m_label = c @ '' GDP'', m_value = ''nanB USD'', m_delta = ''nanx'',
          m_delta_color = ''normal''\<rparr>"
  using assms by (simp add: country_metric_values)

theorem missing_end_value_is_rendered_nan_witness:
  "country_gdp (first_year_data demo_df 1960) ''NOL'' = Inr (FNum False 50) \<and>
   FNum False 50 \<noteq> FNaN \<and>
   country_gdp (last_year_data demo_df 2022) ''NOL'' = Inr FNaN \<and>
   country_metric demo_df 1960 2022 ''NOL'' =
     Inr \<lparr>m_label = ''NOL GDP'', m_value = ''nanB USD'', m_delta = ''nanx'',
          m_delta_color = ''normal''\<rparr>"
  using missing_end_value_is_rendered_nan [of demo_df 1960 "''NOL''" "FNum False 50" 2022]
  by (simp add: demo_first demo_last)

end
